theory Spec2Isabelle
  imports Main "HOL-Library.Char_ord" "HOL-Library.List_Lexorder"
begin

section \<open>JavaScript values\<close>

text \<open>
  The controller (\<^verbatim>\<open>client/LocalityCorner/Localitycorner.js\<close>) is kept in the
  repository in two versions. Both are embedded here; a function whose text differs between
  the two takes the \<open>version\<close> as its first argument.

  Values that cross the network as JSON, or that are stored in the selection \<^verbatim>\<open>Set\<close>,
  are JavaScript values. Numbers are the integers (identifiers, counts, page numbers);
  \<open>JNaN\<close> is what \<^verbatim>\<open>parseInt\<close> gives for a string without digits. An object holds its
  own properties in enumeration order.
\<close>

datatype version = V1 | V2

datatype jsval =
    JUndefined
  | JNull
  | JBool bool
  | JNum int
  | JNaN
  | JStr string
  | JArr "jsval list"
  | JObj "(string \<times> jsval) list"

datatype exn = TypeError | NetworkFailure | SyntaxError

text \<open>Truthiness, as \<^verbatim>\<open>if (x)\<close>, \<^verbatim>\<open>!x\<close> and \<^verbatim>\<open>x || y\<close> test it.\<close>

fun truthy :: "jsval \<Rightarrow> bool" where
  "truthy JUndefined = False"
| "truthy JNull = False"
| "truthy (JBool b) = b"
| "truthy (JNum n) = (n \<noteq> 0)"
| "truthy JNaN = False"
| "truthy (JStr s) = (s \<noteq> [])"
| "truthy (JArr xs) = True"
| "truthy (JObj kvs) = True"

text \<open>
  Property access \<^verbatim>\<open>v.k\<close>: a \<^verbatim>\<open>TypeError\<close> on \<^verbatim>\<open>null\<close> and \<^verbatim>\<open>undefined\<close>,
  the property of an object, and \<^verbatim>\<open>undefined\<close> for a property that is absent (none of the
  names the controller reads is a built-in property of a primitive or of an array).
\<close>

fun get :: "jsval \<Rightarrow> string \<Rightarrow> exn + jsval" where
  "get JUndefined k = Inl TypeError"
| "get JNull k = Inl TypeError"
| "get (JObj kvs) k = (case map_of kvs k of None \<Rightarrow> Inr JUndefined | Some v \<Rightarrow> Inr v)"
| "get v k = Inr JUndefined"

subsection \<open>Numbers as decimal strings\<close>

definition digit_char :: "nat \<Rightarrow> char" where
  "digit_char d = char_of (48 + d)"

fun dec :: "nat \<Rightarrow> string" where
  "dec n = (if n < 10 then [digit_char n] else dec (n div 10) @ [digit_char (n mod 10)])"

declare dec.simps [simp del]

text \<open>\<^verbatim>\<open>String(n)\<close> and \<^verbatim>\<open>`${n}`\<close> for an integer \<open>n\<close>.\<close>

definition Number_toString :: "int \<Rightarrow> string" where
  "Number_toString i = (if i < 0 then CHR ''-'' # dec (nat (- i)) else dec (nat i))"

definition is_digit :: "char \<Rightarrow> bool" where
  "is_digit c = (48 \<le> (of_char c :: nat) \<and> (of_char c :: nat) \<le> 57)"

definition digit_val :: "char \<Rightarrow> nat" where
  "digit_val c = of_char c - 48"

definition is_hex_digit :: "char \<Rightarrow> bool" where
  "is_hex_digit c = (is_digit c
     \<or> (65 \<le> (of_char c :: nat) \<and> (of_char c :: nat) \<le> 70)
     \<or> (97 \<le> (of_char c :: nat) \<and> (of_char c :: nat) \<le> 102))"

definition hex_val :: "char \<Rightarrow> nat" where
  "hex_val c = (if is_digit c then of_char c - 48
     else if (of_char c :: nat) \<le> 70 then of_char c - 55 else of_char c - 87)"

definition is_space :: "char \<Rightarrow> bool" where
  "is_space c = ((of_char c :: nat) \<in> {9, 10, 11, 12, 13, 32})"

definition digits_value :: "nat \<Rightarrow> (char \<Rightarrow> nat) \<Rightarrow> string \<Rightarrow> nat" where
  "digits_value radix val ds = foldl (\<lambda>a c. radix * a + val c) 0 ds"

text \<open>
  \<^verbatim>\<open>parseInt(s)\<close> with no radix: leading (ASCII) white space is skipped, a sign is
  read, a \<^verbatim>\<open>0x\<close> prefix selects base 16, and the longest prefix of digits is the value;
  \<^verbatim>\<open>NaN\<close> when there is no digit.
\<close>

definition parseInt :: "string \<Rightarrow> jsval" where
  "parseInt s =
     (let t = dropWhile is_space s;
          neg = (case t of [] \<Rightarrow> False | c # r \<Rightarrow> c = CHR ''-'');
          u = (case t of [] \<Rightarrow> [] | c # r \<Rightarrow> if c = CHR ''-'' \<or> c = CHR ''+'' then r else t);
          hex = (case u of c1 # c2 # r \<Rightarrow> c1 = CHR ''0'' \<and> (c2 = CHR ''x'' \<or> c2 = CHR ''X'') | _ \<Rightarrow> False);
          ds = (if hex then takeWhile is_hex_digit (drop 2 u) else takeWhile is_digit u);
          n = (if hex then digits_value 16 hex_val ds else digits_value 10 digit_val ds)
      in if ds = [] then JNaN else JNum (if neg then - int n else int n))"

subsection \<open>Strings from values\<close>

definition join :: "string \<Rightarrow> string list \<Rightarrow> string" where
  "join sep xs = (case xs of [] \<Rightarrow> [] | y # ys \<Rightarrow> y @ concat (map (\<lambda>z. sep @ z) ys))"

text \<open>\<^verbatim>\<open>String(v)\<close>, which is what \<^verbatim>\<open>"Error: " + v\<close> and a template literal append.\<close>

fun toString :: "jsval \<Rightarrow> string" where
  "toString JUndefined = ''undefined''"
| "toString JNull = ''null''"
| "toString (JBool b) = (if b then ''true'' else ''false'')"
| "toString (JNum n) = Number_toString n"
| "toString JNaN = ''NaN''"
| "toString (JStr s) = s"
| "toString (JArr xs) =
     join '','' (map (\<lambda>x. if x = JUndefined \<or> x = JNull then [] else toString x) xs)"
| "toString (JObj kvs) = ''[object Object]''"

definition hex_char :: "nat \<Rightarrow> char" where
  "hex_char d = (if d < 10 then char_of (48 + d) else char_of (87 + d))"

definition quote_char :: "char \<Rightarrow> string" where
  "quote_char c =
     (if c = CHR ''\"'' then [CHR 0x5C, CHR ''\"'']
      else if c = CHR 0x5C then [CHR 0x5C, CHR 0x5C]
      else if c = CHR 0x08 then [CHR 0x5C, CHR ''b'']
      else if c = CHR 0x0C then [CHR 0x5C, CHR ''f'']
      else if c = CHR 0x0A then [CHR 0x5C, CHR ''n'']
      else if c = CHR 0x0D then [CHR 0x5C, CHR ''r'']
      else if c = CHR 0x09 then [CHR 0x5C, CHR ''t'']
      else if (of_char c :: nat) < 32
        then [CHR 0x5C, CHR ''u'', CHR ''0'', CHR ''0'',
              hex_char ((of_char c :: nat) div 16), hex_char ((of_char c :: nat) mod 16)]
      else [c])"

definition quote :: "string \<Rightarrow> string" where
  "quote s = [CHR ''\"''] @ concat (map quote_char s) @ [CHR ''\"'']"

text \<open>
  \<^verbatim>\<open>JSON.stringify(v)\<close>. In an array \<^verbatim>\<open>undefined\<close> is written \<^verbatim>\<open>null\<close>, in an
  object a property whose value is \<^verbatim>\<open>undefined\<close> is left out. For \<^verbatim>\<open>undefined\<close>
  itself the result is \<^verbatim>\<open>undefined\<close>, given here as the text a string concatenation
  makes of it; the controller only stringifies a truthy value.
\<close>

fun JSON_stringify :: "jsval \<Rightarrow> string" where
  "JSON_stringify JUndefined = ''undefined''"
| "JSON_stringify JNull = ''null''"
| "JSON_stringify (JBool b) = (if b then ''true'' else ''false'')"
| "JSON_stringify (JNum n) = Number_toString n"
| "JSON_stringify JNaN = ''null''"
| "JSON_stringify (JStr s) = quote s"
| "JSON_stringify (JArr xs) =
     ''['' @ join '','' (map (\<lambda>x. if x = JUndefined then ''null'' else JSON_stringify x) xs) @ '']''"
| "JSON_stringify (JObj kvs) =
     ''{'' @ join '','' (map (\<lambda>(k, v). quote k @ '':'' @ JSON_stringify v)
                          (filter (\<lambda>(k, v). v \<noteq> JUndefined) kvs)) @ ''}''"

section \<open>Data received from the server\<close>

text \<open>
  The backend is not part of the repository. Its JSON is typed here by the fields the
  controller reads: a field the code guards (\<^verbatim>\<open>data.results || []\<close>,
  \<^verbatim>\<open>data.pagination ? ... : 1\<close>, \<^verbatim>\<open>data.global_pending || 0\<close>) or dereferences
  without a guard (\<^verbatim>\<open>data.pagination.total_records\<close>) is optional, \<open>None\<close> standing
  for a field that is absent or \<^verbatim>\<open>null\<close>. Version 1 reads \<^verbatim>\<open>id\<close>,
  \<^verbatim>\<open>locality_name\<close> and \<^verbatim>\<open>billing_zone\<close> of a master locality, version 2 reads
  \<^verbatim>\<open>locality\<close> and \<^verbatim>\<open>zone\<close>. The kilometre and status columns are only displayed
  and are left out, with the read-only previews (\<^verbatim>\<open>updatePreview\<close>,
  \<^verbatim>\<open>updateBulkPreview\<close>) and the tab switches.
\<close>

record master_locality =
  loc_id :: int
  locality_name :: string
  locality :: string
  billing_zone :: "string option"
  zone :: "string option"

record address_row =
  row_id :: int
  row_address :: string
  row_locality :: "string option"
  row_locality_id :: "int option"

record table_data =
  td_results :: "address_row list option"
  td_total_pages :: "int option"
  td_global_pending :: "int option"

record pending_row =
  pend_id :: int
  pend_address :: string

record next_pending =
  np_found :: bool
  np_data :: "pending_row option"

record bulk_data =
  bd_total_records :: "int option"
  bd_results :: "pending_row list option"

text \<open>
  What \<^verbatim>\<open>await fetch(...)\<close> followed by \<^verbatim>\<open>await res.json()\<close> can give: the request
  fails in transport (\<^verbatim>\<open>fetch\<close> rejects), or a response arrives with its \<^verbatim>\<open>ok\<close> flag
  and a body that is JSON or not (\<^verbatim>\<open>res.json()\<close> rejects).
\<close>

datatype 'a response = NetworkError | Response bool "'a option"

datatype request = GET string | POST string "(string \<times> jsval) list"

datatype outcome = Completed | Threw exn

section \<open>The page\<close>

record option_elem =
  opt_value :: string
  opt_text :: string

text \<open>A drop-down \<^verbatim>\<open><select>\<close>: its options and the index of the selected one.\<close>

record select_elem =
  options :: "option_elem list"
  selectedIndex :: "nat option"

definition select_value :: "select_elem \<Rightarrow> string" where
  "select_value s =
     (case selectedIndex s of
        None \<Rightarrow> []
      | Some i \<Rightarrow> if i < length (options s) then opt_value (options s ! i) else [])"

fun find_index :: "('a \<Rightarrow> bool) \<Rightarrow> 'a list \<Rightarrow> nat option" where
  "find_index P [] = None"
| "find_index P (x # xs) = (if P x then Some 0 else map_option Suc (find_index P xs))"

text \<open>\<^verbatim>\<open>sel.value = v\<close> selects the first option with that value, or none.\<close>

definition set_select_value :: "string \<Rightarrow> select_elem \<Rightarrow> select_elem" where
  "set_select_value v s = s\<lparr>selectedIndex := find_index (\<lambda>opt. opt_value opt = v) (options s)\<rparr>"

text \<open>
  \<^verbatim>\<open>sel.appendChild(opt)\<close>, the flag telling whether \<^verbatim>\<open>opt.selected = true\<close> was set
  before. A drop-down with no selected option selects its first one.
\<close>

definition appendChild :: "option_elem \<Rightarrow> bool \<Rightarrow> select_elem \<Rightarrow> select_elem" where
  "appendChild opt selected s =
     \<lparr>options = options s @ [opt],
      selectedIndex = (if selected then Some (length (options s))
                        else case selectedIndex s of None \<Rightarrow> Some 0 | Some i \<Rightarrow> Some i)\<rparr>"

text \<open>The user picks the option at an index of a drop-down.\<close>

definition pick_option :: "nat \<Rightarrow> select_elem \<Rightarrow> select_elem" where
  "pick_option i s = (if i < length (options s) then s\<lparr>selectedIndex := Some i\<rparr> else s)"

datatype select_id = SingleLocalitySelect | BulkLocalitySelect

datatype locality_cell = is_Display: Display string | is_Editing: Editing select_elem

datatype action_cell = EditButton int | SaveCancelButtons int

record view_tr =
  tr_id :: int
  tr_address :: string
  localityCell :: locality_cell
  actionCell :: action_cell

record bulk_tr =
  chk_value :: string
  checked :: bool
  bulk_address :: string

text \<open>
  The module's variables (lines 2 to 7 of either version), the elements of the page the
  controller reads and writes, and what it does to the outside: the alerts shown, the
  requests sent, the errors written to the console. An empty \<open>viewTableBody\<close> stands for
  the single "No records found" row.
\<close>

record ui_state =
  masterLocalities :: "master_locality list"
  currentPage :: int
  totalPages :: int
  editingRowId :: "int option"
  currentPendingItem :: "pending_row option"
  bulkSelection :: "jsval list"
  viewSearch :: string
  bulkSearch :: string
  singleLocalitySelect :: select_elem
  bulkLocalitySelect :: select_elem
  newLocName :: string
  newLocZone :: select_elem
  viewTableBody :: "view_tr list"
  bulkTableBody :: "bulk_tr list"
  bulkSelectAll :: bool
  pageIndicator :: string
  globalPendingCount :: string
  bulkCount :: string
  btnPrev_disabled :: bool
  btnNext_disabled :: bool
  pendingCard_hidden :: bool
  noPendingMsg_hidden :: bool
  pendingAddress :: string
  previewZone :: string
  previewKM :: string
  alerts :: "string list"
  requests :: "request list"
  console :: "exn list"

definition API_BASE :: string where
  "API_BASE = ''http://127.0.0.1:8001/api''"

definition alert :: "string \<Rightarrow> ui_state \<Rightarrow> ui_state" where
  "alert msg st = st\<lparr>alerts := alerts st @ [msg]\<rparr>"

definition send :: "request \<Rightarrow> ui_state \<Rightarrow> ui_state" where
  "send r st = st\<lparr>requests := requests st @ [r]\<rparr>"

definition console_error :: "exn \<Rightarrow> ui_state \<Rightarrow> ui_state" where
  "console_error e st = st\<lparr>console := console st @ [e]\<rparr>"

text \<open>\<^verbatim>\<open>x || 0\<close> for an optional number.\<close>

definition or_zero :: "int option \<Rightarrow> int" where
  "or_zero x = (case x of None \<Rightarrow> 0 | Some n \<Rightarrow> n)"

section \<open>The controller\<close>

text \<open>
  Every function takes the page's state and returns the new one. A function that sends a
  request takes, as an argument, what the server answers to it, and runs to its end with
  that answer: events that arrive between a request and its response are not modelled. A
  function whose promise can reject returns an \<open>outcome\<close> beside the state it leaves.
\<close>

subsection \<open>Master data\<close>

definition locality_option :: "version \<Rightarrow> master_locality \<Rightarrow> option_elem" where
  "locality_option ver loc =
     (case ver of
        V1 \<Rightarrow> \<lparr>opt_value = Number_toString (loc_id loc), opt_text = locality_name loc\<rparr>
      | V2 \<Rightarrow> \<lparr>opt_value = locality loc, opt_text = locality loc\<rparr>)"

definition set_select :: "select_id \<Rightarrow> select_elem \<Rightarrow> ui_state \<Rightarrow> ui_state" where
  "set_select sid sel st =
     (case sid of
        SingleLocalitySelect \<Rightarrow> st\<lparr>singleLocalitySelect := sel\<rparr>
      | BulkLocalitySelect \<Rightarrow> st\<lparr>bulkLocalitySelect := sel\<rparr>)"

definition populateDropdown ::
  "version \<Rightarrow> select_id \<Rightarrow> master_locality list \<Rightarrow> ui_state \<Rightarrow> ui_state" where
  "populateDropdown ver sid data st =
     (let sel = \<lparr>options = [\<lparr>opt_value = [], opt_text = ''-- Select --''\<rparr>],
                 selectedIndex = Some 0\<rparr>
      in set_select sid
           (foldl (\<lambda>s loc. appendChild (locality_option ver loc) False s) sel data) st)"

definition zone_of :: "version \<Rightarrow> master_locality \<Rightarrow> string option" where
  "zone_of ver l = (case ver of V1 \<Rightarrow> billing_zone l | V2 \<Rightarrow> zone l)"

definition fetchMasterDropdown ::
  "version \<Rightarrow> master_locality list response \<Rightarrow> ui_state \<Rightarrow> ui_state" where
  "fetchMasterDropdown ver resp st =
     (let st1 = send (GET (API_BASE @ ''/dropdown-localities/'')) st
      in case resp of
           NetworkError \<Rightarrow> console_error NetworkFailure st1
         | Response ok None \<Rightarrow> console_error SyntaxError st1
         | Response ok (Some ms) \<Rightarrow>
             (let st2 = st1\<lparr>masterLocalities := ms\<rparr>;
                  st3 = populateDropdown ver SingleLocalitySelect (masterLocalities st2) st2;
                  st4 = populateDropdown ver BulkLocalitySelect (masterLocalities st3) st3;
                  uniqueZones = sort (remdups (filter (\<lambda>z. z \<noteq> [])
                                  (List.map_filter (zone_of ver) (masterLocalities st4))));
                  zoneSelect = \<lparr>options = [\<lparr>opt_value = [],
                                             opt_text = ''-- Select Existing Zone --''\<rparr>],
                                selectedIndex = Some 0\<rparr>
              in st4\<lparr>newLocZone :=
                       foldl (\<lambda>s z. appendChild \<lparr>opt_value = z, opt_text = z\<rparr> False s)
                             zoneSelect uniqueZones\<rparr>))"

subsection \<open>The view tab\<close>

text \<open>
  \<^verbatim>\<open>document.getElementById(`edit-select-${id}`)\<close>: the select of the first row of the
  table that is drawn in editing mode for that id.
\<close>

fun getEditSelect :: "int \<Rightarrow> view_tr list \<Rightarrow> select_elem option" where
  "getEditSelect i [] = None"
| "getEditSelect i (tr # trs) =
     (case localityCell tr of
        Editing sel \<Rightarrow> if tr_id tr = i then Some sel else getEditSelect i trs
      | Display txt \<Rightarrow> getEditSelect i trs)"

fun setEditSelect :: "int \<Rightarrow> select_elem \<Rightarrow> view_tr list \<Rightarrow> view_tr list" where
  "setEditSelect i new [] = []"
| "setEditSelect i new (tr # trs) =
     (case localityCell tr of
        Editing sel \<Rightarrow> if tr_id tr = i then tr\<lparr>localityCell := Editing new\<rparr> # trs
                       else tr # setEditSelect i new trs
      | Display txt \<Rightarrow> tr # setEditSelect i new trs)"

text \<open>The options \<^verbatim>\<open>renderTable\<close> appends to the select of a row that is being edited.\<close>

definition fillEditSelect ::
  "version \<Rightarrow> master_locality list \<Rightarrow> address_row \<Rightarrow> select_elem \<Rightarrow> select_elem" where
  "fillEditSelect ver ms row sel =
     (case ver of
        V1 \<Rightarrow> foldl (\<lambda>s loc. appendChild
                         \<lparr>opt_value = Number_toString (loc_id loc), opt_text = locality_name loc\<rparr>
                         (Some (loc_id loc) = row_locality_id row) s) sel ms
      | V2 \<Rightarrow> foldl (\<lambda>s loc. appendChild
                         \<lparr>opt_value = locality loc, opt_text = locality loc\<rparr>
                         (Some (locality loc) = row_locality row) s)
                (appendChild \<lparr>opt_value = [], opt_text = ''-- Select --''\<rparr> False sel) ms)"

definition or_dash :: "string option \<Rightarrow> string" where
  "or_dash x = (case x of None \<Rightarrow> ''-'' | Some s \<Rightarrow> if s = [] then ''-'' else s)"

text \<open>\<^verbatim>\<open>const isEditing = editingRowId === row.id\<close>\<close>

definition isEditing :: "ui_state \<Rightarrow> address_row \<Rightarrow> bool" where
  "isEditing st row = (editingRowId st = Some (row_id row))"

text \<open>One turn of the \<^verbatim>\<open>rows.forEach\<close> of \<^verbatim>\<open>renderTable\<close>, on the table built so far.\<close>

definition renderRow ::
  "version \<Rightarrow> ui_state \<Rightarrow> view_tr list \<Rightarrow> address_row \<Rightarrow> view_tr list" where
  "renderRow ver st tbody row =
     (let editing = isEditing st row;
          tr = \<lparr>tr_id = row_id row, tr_address = row_address row,
                localityCell = (if editing
                                then Editing \<lparr>options = [], selectedIndex = None\<rparr>
                                else Display (or_dash (row_locality row))),
                actionCell = (if editing then SaveCancelButtons (row_id row)
                              else EditButton (row_id row))\<rparr>;
          tbody1 = tbody @ [tr]
      in if editing
         then (case getEditSelect (row_id row) tbody1 of
                 None \<Rightarrow> tbody1
               | Some sel \<Rightarrow>
                   setEditSelect (row_id row)
                     (fillEditSelect ver (masterLocalities st) row sel) tbody1)
         else tbody1)"

definition renderTable :: "version \<Rightarrow> address_row list \<Rightarrow> ui_state \<Rightarrow> ui_state" where
  "renderTable ver rows st =
     (if rows = [] then st\<lparr>viewTableBody := []\<rparr>
      else st\<lparr>viewTableBody := foldl (renderRow ver st) [] rows\<rparr>)"

definition fetchTableData ::
  "version \<Rightarrow> int \<Rightarrow> table_data response \<Rightarrow> ui_state \<Rightarrow> ui_state" where
  "fetchTableData ver page resp st =
     (let search = viewSearch st;
          st1 = send (GET (API_BASE @ ''/localities/?page='' @ Number_toString page
                           @ ''&search='' @ search)) st
      in case resp of
           NetworkError \<Rightarrow> console_error NetworkFailure st1
         | Response ok None \<Rightarrow> console_error SyntaxError st1
         | Response ok (Some data) \<Rightarrow>
             (let st2 = renderTable ver
                          (case td_results data of None \<Rightarrow> [] | Some rs \<Rightarrow> rs) st1;
                  tp = (case td_total_pages data of None \<Rightarrow> 1 | Some t \<Rightarrow> t)
              in st2\<lparr>currentPage := page,
                     totalPages := tp,
                     pageIndicator := ''Page '' @ Number_toString page @ '' of ''
                                      @ Number_toString tp,
                     globalPendingCount := Number_toString (or_zero (td_global_pending data)),
                     btnPrev_disabled := (page = 1),
                     btnNext_disabled := (page = tp)\<rparr>))"

definition changePage ::
  "version \<Rightarrow> int \<Rightarrow> table_data response \<Rightarrow> ui_state \<Rightarrow> ui_state" where
  "changePage ver delta resp st =
     (let newPage = currentPage st + delta
      in if newPage > 0 \<and> newPage \<le> totalPages st then fetchTableData ver newPage resp st
         else st)"

text \<open>
  Version 1 declares a second parameter of \<^verbatim>\<open>startEdit\<close>, the row's current locality
  id, and never reads it.
\<close>

definition startEdit ::
  "version \<Rightarrow> int \<Rightarrow> table_data response \<Rightarrow> ui_state \<Rightarrow> ui_state" where
  "startEdit ver i resp st =
     (let st1 = st\<lparr>editingRowId := Some i\<rparr>
      in fetchTableData ver (currentPage st1) resp st1)"

definition cancelEdit :: "version \<Rightarrow> table_data response \<Rightarrow> ui_state \<Rightarrow> ui_state" where
  "cancelEdit ver resp st =
     (let st1 = st\<lparr>editingRowId := None\<rparr>
      in fetchTableData ver (currentPage st1) resp st1)"

subsection \<open>Posting\<close>

text \<open>
  \<^verbatim>\<open>postData\<close> returns what the caller tests with \<^verbatim>\<open>if (success)\<close>: \<^verbatim>\<open>true\<close> or
  \<^verbatim>\<open>false\<close> in version 1, \<^verbatim>\<open>false\<close> or the response's own \<^verbatim>\<open>success\<close> property in
  version 2. Everything after the request is inside its \<^verbatim>\<open>try\<close>.
\<close>

definition postData ::
  "version \<Rightarrow> string \<Rightarrow> (string \<times> jsval) list \<Rightarrow> jsval response \<Rightarrow> ui_state
     \<Rightarrow> jsval \<times> ui_state" where
  "postData ver endpoint body resp st =
     (let st1 = send (POST (API_BASE @ endpoint) body) st;
          caught = (JBool False, alert ''Network Error'' st1)
      in case ver of
           V1 \<Rightarrow>
             (case resp of
                NetworkError \<Rightarrow> caught
              | Response ok None \<Rightarrow> caught
              | Response ok (Some data) \<Rightarrow>
                  (case get data ''success'' of
                     Inl e \<Rightarrow> caught
                   | Inr success \<Rightarrow>
                       if truthy success then (JBool True, st1)
                       else (case get data ''error'' of
                               Inl e \<Rightarrow> caught
                             | Inr err \<Rightarrow>
                                 (JBool False, alert (''Error: '' @ toString err) st1))))
         | V2 \<Rightarrow>
             (case resp of
                NetworkError \<Rightarrow> caught
              | Response ok json \<Rightarrow>
                  if \<not> ok then
                    (let err = (case json of None \<Rightarrow> JObj [] | Some e \<Rightarrow> e)
                     in case get err ''detail'' of
                          Inl e \<Rightarrow> caught
                        | Inr detail \<Rightarrow>
                            (JBool False,
                             alert (''Error: '' @ (if truthy detail then JSON_stringify detail
                                                   else ''Validation Failed'')) st1))
                  else
                    (case json of
                       None \<Rightarrow> caught
                     | Some data \<Rightarrow>
                         (case get data ''success'' of
                            Inl e \<Rightarrow> caught
                          | Inr success \<Rightarrow> (success, st1)))))"

definition saveEdit ::
  "version \<Rightarrow> int \<Rightarrow> jsval response \<Rightarrow> table_data response \<Rightarrow> ui_state
     \<Rightarrow> outcome \<times> ui_state" where
  "saveEdit ver i post_resp table_resp st =
     (case getEditSelect i (viewTableBody st) of
        None \<Rightarrow> (Threw TypeError, st)
      | Some sel \<Rightarrow>
          (let newLoc = select_value sel
           in case ver of
                V1 \<Rightarrow>
                  if newLoc = [] then (Completed, st)
                  else
                    (let (success, st1) =
                           postData V1 ''/save-mapping/''
                             [(''address_id'', JNum i), (''locality_id'', JStr newLoc)]
                             post_resp st;
                         st2 = st1\<lparr>editingRowId := None\<rparr>
                     in (Completed, fetchTableData V1 (currentPage st2) table_resp st2))
              | V2 \<Rightarrow>
                  if newLoc = [] then (Completed, alert ''Please select a locality'' st)
                  else
                    (let (success, st1) =
                           postData V2 ''/save-mapping/''
                             [(''address_id'', JNum i), (''locality_id'', JStr newLoc),
                              (''locality_name'', JStr newLoc)]
                             post_resp st
                     in if truthy success
                        then (let st2 = st1\<lparr>editingRowId := None\<rparr>
                              in (Completed,
                                  fetchTableData V2 (currentPage st2) table_resp st2))
                        else (Completed, st1))))"

subsection \<open>Single assignment\<close>

definition fetchNextPending :: "next_pending response \<Rightarrow> ui_state \<Rightarrow> ui_state" where
  "fetchNextPending resp st =
     (let st1 = send (GET (API_BASE @ ''/next-pending/'')) st
      in case resp of
           NetworkError \<Rightarrow> console_error NetworkFailure st1
         | Response ok None \<Rightarrow> console_error SyntaxError st1
         | Response ok (Some data) \<Rightarrow>
             if np_found data then
               (let st2 = st1\<lparr>currentPendingItem := np_data data,
                              pendingCard_hidden := False,
                              noPendingMsg_hidden := True\<rparr>
                in case currentPendingItem st2 of
                     None \<Rightarrow> console_error TypeError st2
                   | Some item \<Rightarrow>
                       st2\<lparr>pendingAddress := pend_address item,
                           singleLocalitySelect := set_select_value [] (singleLocalitySelect st2),
                           previewZone := ''-'',
                           previewKM := ''-''\<rparr>)
             else st1\<lparr>currentPendingItem := None,
                      pendingCard_hidden := True,
                      noPendingMsg_hidden := False\<rparr>)"

text \<open>
  The body \<^verbatim>\<open>saveSinglePending\<close> posts. Version 2 sends the selection a second time as
  \<^verbatim>\<open>locality_name\<close>.
\<close>

definition mapping_body :: "version \<Rightarrow> int \<Rightarrow> string \<Rightarrow> (string \<times> jsval) list" where
  "mapping_body ver address_id loc =
     (case ver of
        V1 \<Rightarrow> [(''address_id'', JNum address_id), (''locality_id'', JStr loc)]
      | V2 \<Rightarrow> [(''address_id'', JNum address_id), (''locality_id'', JStr loc),
               (''locality_name'', JStr loc)])"

text \<open>
  \<^verbatim>\<open>saveSinglePending\<close> takes the answers to its post, to the \<^verbatim>\<open>fetchNextPending\<close> it
  starts, to the \<^verbatim>\<open>fetchTableData(1)\<close> version 2 starts, and to its own request for the
  pending count, which is outside any \<^verbatim>\<open>try\<close>.
\<close>

definition saveSinglePending ::
  "version \<Rightarrow> jsval response \<Rightarrow> next_pending response \<Rightarrow> table_data response
     \<Rightarrow> table_data response \<Rightarrow> ui_state \<Rightarrow> outcome \<times> ui_state" where
  "saveSinglePending ver post_resp next_resp table_resp count_resp st =
     (let loc = select_value (singleLocalitySelect st)
      in case currentPendingItem st of
           None \<Rightarrow> (Completed, alert ''Select a locality!'' st)
         | Some item \<Rightarrow>
             if loc = [] then (Completed, alert ''Select a locality!'' st)
             else
               (let (success, st1) =
                      postData ver ''/save-mapping/'' (mapping_body ver (pend_id item) loc)
                        post_resp st
                in if truthy success then
                     (let st2 = fetchNextPending next_resp st1;
                          st3 = (case ver of V1 \<Rightarrow> st2
                                 | V2 \<Rightarrow> fetchTableData V2 1 table_resp st2);
                          st4 = send (GET (API_BASE @ ''/localities/?page=1'')) st3
                      in case count_resp of
                           NetworkError \<Rightarrow> (Threw NetworkFailure, st4)
                         | Response ok None \<Rightarrow> (Threw SyntaxError, st4)
                         | Response ok (Some data) \<Rightarrow>
                             (Completed,
                              st4\<lparr>globalPendingCount :=
                                    Number_toString (or_zero (td_global_pending data))\<rparr>))
                   else (Completed, st1)))"

subsection \<open>Bulk assignment\<close>

definition fetchBulkData :: "int \<Rightarrow> bulk_data response \<Rightarrow> ui_state \<Rightarrow> outcome \<times> ui_state" where
  "fetchBulkData page resp st =
     (let q = bulkSearch st;
          st1 = send (GET (API_BASE @ ''/search-pending/?q='' @ q @ ''&page=''
                           @ Number_toString page)) st
      in case resp of
           NetworkError \<Rightarrow> (Threw NetworkFailure, st1)
         | Response ok None \<Rightarrow> (Threw SyntaxError, st1)
         | Response ok (Some data) \<Rightarrow>
             (case bd_total_records data of
                None \<Rightarrow> (Threw TypeError, st1)
              | Some total_records \<Rightarrow>
                  (let st2 = st1\<lparr>bulkCount := Number_toString total_records, bulkTableBody := []\<rparr>
                   in case bd_results data of
                        None \<Rightarrow> (Threw TypeError, st2)
                      | Some rows \<Rightarrow>
                          (let st3 = st2\<lparr>bulkTableBody :=
                                           map (\<lambda>row. \<lparr>chk_value = Number_toString (pend_id row),
                                                       checked = False,
                                                       bulk_address = pend_address row\<rparr>) rows\<rparr>
                           in (Completed, st3\<lparr>bulkSelection := []\<rparr>)))))"

text \<open>
  The selection is a \<^verbatim>\<open>Set\<close>: it keeps the order of insertion, and \<^verbatim>\<open>Array.from\<close>
  reads it in that order.
\<close>

definition Set_add :: "jsval \<Rightarrow> jsval list \<Rightarrow> jsval list" where
  "Set_add x xs = (if x \<in> set xs then xs else xs @ [x])"

definition Set_delete :: "jsval \<Rightarrow> jsval list \<Rightarrow> jsval list" where
  "Set_delete x xs = removeAll x xs"

text \<open>
  What \<^verbatim>\<open>updateBulkSet\<close> adds or deletes for a check box: \<^verbatim>\<open>chk.value\<close> in
  version 1, \<^verbatim>\<open>parseInt(chk.value)\<close> in version 2.
\<close>

definition chk_member :: "version \<Rightarrow> bulk_tr \<Rightarrow> jsval" where
  "chk_member ver chk =
     (case ver of V1 \<Rightarrow> JStr (chk_value chk) | V2 \<Rightarrow> parseInt (chk_value chk))"

definition updateBulkSet :: "version \<Rightarrow> bulk_tr \<Rightarrow> ui_state \<Rightarrow> ui_state" where
  "updateBulkSet ver chk st =
     (if checked chk then st\<lparr>bulkSelection := Set_add (chk_member ver chk) (bulkSelection st)\<rparr>
      else st\<lparr>bulkSelection := Set_delete (chk_member ver chk) (bulkSelection st)\<rparr>)"



definition saveBulk ::
  "version \<Rightarrow> jsval response \<Rightarrow> bulk_data response \<Rightarrow> table_data response \<Rightarrow> ui_state
     \<Rightarrow> outcome \<times> ui_state" where
  "saveBulk ver post_resp bulk_resp table_resp st =
     (let loc = select_value (bulkLocalitySelect st);
          ids = bulkSelection st
      in if length ids = 0 \<or> loc = [] then (Completed, alert ''Select addresses and locality!'' st)
         else
           (let payload = (case ver of
                             V1 \<Rightarrow> [(''address_ids'', JArr ids), (''locality_id'', JStr loc)]
                           | V2 \<Rightarrow> [(''address_ids'', JArr ids), (''locality_id'', JStr loc),
                                    (''locality_name'', JStr loc)]);
                st1 = send (POST (API_BASE @ ''/bulk-save/'') payload) st
            in case post_resp of
                 NetworkError \<Rightarrow> (Threw NetworkFailure, st1)
               | Response ok None \<Rightarrow> (Threw SyntaxError, st1)
               | Response ok (Some data) \<Rightarrow>
                   (case get data ''success'' of
                      Inl e \<Rightarrow> (Threw e, st1)
                    | Inr success \<Rightarrow>
                        if truthy success then
                          (case get data ''count'' of
                             Inl e \<Rightarrow> (Threw e, st1)
                           | Inr cnt \<Rightarrow>
                               (let st2 = alert (''Updated '' @ toString cnt @ '' addresses!'') st1;
                                    st3 = snd (fetchBulkData 1 bulk_resp st2);
                                    st4 = fetchTableData ver 1 table_resp st3
                                in (Completed, st4)))
                        else (Completed, st1))))"

subsection \<open>Adding a master locality\<close>

definition addNewMaster ::
  "version \<Rightarrow> jsval response \<Rightarrow> master_locality list response \<Rightarrow> ui_state \<Rightarrow> ui_state" where
  "addNewMaster ver post_resp master_resp st =
     (let name = newLocName st;
          zone_name = select_value (newLocZone st)
      in if name = [] \<or> zone_name = [] then alert ''Enter Name and Zone'' st
         else
           (let (success, st1) =
                  postData ver ''/add-master-locality/''
                    [(''locality_name'', JStr name), (''zone_name'', JStr zone_name)] post_resp st
            in if truthy success then
                 (let st2 = alert ''Locality Added Successfully!'' st1;
                      st3 = st2\<lparr>newLocName := []\<rparr>;
                      st4 = (case ver of
                               V1 \<Rightarrow> st3\<lparr>newLocZone := set_select_value [] (newLocZone st3)\<rparr>
                             | V2 \<Rightarrow> st3)
                  in fetchMasterDropdown ver master_resp st4)
               else st1))"

subsection \<open>What the user does in bulk mode\<close>



subsection \<open>A page before any request\<close>

text \<open>
  The module's variables as lines 2 to 7 initialise them, on a page with nothing drawn or
  typed yet. It is the starting point of the worked examples below.
\<close>

definition empty_select :: select_elem where
  "empty_select = \<lparr>options = [], selectedIndex = None\<rparr>"

definition initial :: ui_state where
  "initial =
     \<lparr>masterLocalities = [], currentPage = 1, totalPages = 1, editingRowId = None,
      currentPendingItem = None, bulkSelection = [],
      viewSearch = [], bulkSearch = [],
      singleLocalitySelect = empty_select, bulkLocalitySelect = empty_select,
      newLocName = [], newLocZone = empty_select,
      viewTableBody = [], bulkTableBody = [], bulkSelectAll = False,
      pageIndicator = [], globalPendingCount = [], bulkCount = [],
      btnPrev_disabled = False, btnNext_disabled = False,
      pendingCard_hidden = True, noPendingMsg_hidden = True,
      pendingAddress = [], previewZone = ''-'', previewKM = ''-'',
      alerts = [], requests = [], console = []\<rparr>"

section \<open>Notions used in the proofs\<close>

text \<open>
  What a drawn row of the view table shows of the edit state: its id, whether its locality
  cell is a select, and its buttons; and the same for a row as \<^verbatim>\<open>renderTable\<close> is
  about to draw it.
\<close>

definition tr_shape :: "view_tr \<Rightarrow> int \<times> bool \<times> action_cell" where
  "tr_shape tr = (tr_id tr, is_Editing (localityCell tr), actionCell tr)"

definition row_shape :: "ui_state \<Rightarrow> address_row \<Rightarrow> int \<times> bool \<times> action_cell" where
  "row_shape st row =
     (row_id row, isEditing st row,
      if isEditing st row then SaveCancelButtons (row_id row) else EditButton (row_id row))"




section \<open>Decimal strings\<close>



lemma dec_nonempty: "dec n \<noteq> []"
  by (subst dec.simps) simp












lemma Number_toString_nonempty: "Number_toString i \<noteq> []"
  by (simp add: Number_toString_def dec_nonempty)

lemma Number_toString_1: "Number_toString 1 = ''1''"
  by code_simp

lemma Number_toString_2: "Number_toString 2 = ''2''"
  by code_simp

section \<open>What each function leaves alone\<close>

lemma requests_renderTable: "requests (renderTable ver rows st) = requests st"
  by (simp add: renderTable_def)

lemma alerts_renderTable: "alerts (renderTable ver rows st) = alerts st"
  by (simp add: renderTable_def)

lemma requests_fetchTableData:
  "requests (fetchTableData ver page resp st) =
     requests st @ [GET (API_BASE @ ''/localities/?page='' @ Number_toString page
                         @ ''&search='' @ viewSearch st)]"
  by (simp add: fetchTableData_def Let_def send_def console_error_def requests_renderTable
           split: response.splits option.splits)

lemma alerts_fetchTableData: "alerts (fetchTableData ver page resp st) = alerts st"
  by (simp add: fetchTableData_def Let_def send_def console_error_def alerts_renderTable
           split: response.splits option.splits)

lemma requests_fetchBulkData:
  "requests (snd (fetchBulkData page resp st)) =
     requests st @ [GET (API_BASE @ ''/search-pending/?q='' @ bulkSearch st @ ''&page=''
                         @ Number_toString page)]"
  by (simp add: fetchBulkData_def Let_def send_def split: response.splits option.splits)

lemma alerts_fetchBulkData: "alerts (snd (fetchBulkData page resp st)) = alerts st"
  by (simp add: fetchBulkData_def Let_def send_def split: response.splits option.splits)

lemma viewSearch_fetchBulkData: "viewSearch (snd (fetchBulkData page resp st)) = viewSearch st"
  by (simp add: fetchBulkData_def Let_def send_def split: response.splits option.splits)

lemma requests_fetchNextPending:
  "requests (fetchNextPending resp st) = requests st @ [GET (API_BASE @ ''/next-pending/'')]"
  by (simp add: fetchNextPending_def Let_def send_def console_error_def
           split: response.splits option.splits)

lemma alerts_fetchNextPending: "alerts (fetchNextPending resp st) = alerts st"
  by (simp add: fetchNextPending_def Let_def send_def console_error_def
           split: response.splits option.splits)

lemma viewSearch_fetchNextPending: "viewSearch (fetchNextPending resp st) = viewSearch st"
  by (simp add: fetchNextPending_def Let_def send_def console_error_def
           split: response.splits option.splits)

lemma requests_postData:
  "requests (snd (postData ver endpoint body resp st)) =
     requests st @ [POST (API_BASE @ endpoint) body]"
  by (simp add: postData_def Let_def send_def alert_def
           split: version.splits response.splits option.splits sum.splits)

lemma postData_frame:
  "snd (postData ver endpoint body resp st) =
     st\<lparr>alerts := alerts (snd (postData ver endpoint body resp st)),
        requests := requests st @ [POST (API_BASE @ endpoint) body]\<rparr>"
  by (simp add: postData_def Let_def send_def alert_def
           split: version.splits response.splits option.splits sum.splits)

section \<open>Pagination\<close>

text \<open>
  Claim C9. For every delta, \<^verbatim>\<open>changePage(delta)\<close> calls \<^verbatim>\<open>fetchTableData\<close>, which
  sends one request for the new page, exactly when \<open>currentPage + delta\<close> lies in
  \<open>[1, totalPages]\<close>; otherwise it leaves the state as it is and sends nothing. In
  particular \<^verbatim>\<open>changePage(-1)\<close> on page 1 and \<^verbatim>\<open>changePage(+1)\<close> on the last page
  do nothing.
\<close>

theorem changePage_fetches_iff_in_range:
  "(1 \<le> currentPage st + delta \<and> currentPage st + delta \<le> totalPages st \<longrightarrow>
      changePage ver delta resp st = fetchTableData ver (currentPage st + delta) resp st
      \<and> requests (changePage ver delta resp st) =
          requests st @ [GET (API_BASE @ ''/localities/?page=''
                              @ Number_toString (currentPage st + delta)
                              @ ''&search='' @ viewSearch st)])
   \<and> (\<not> (1 \<le> currentPage st + delta \<and> currentPage st + delta \<le> totalPages st) \<longrightarrow>
        changePage ver delta resp st = st)
   \<and> (currentPage st = 1 \<longrightarrow> changePage ver (- 1) resp st = st)
   \<and> (currentPage st = totalPages st \<longrightarrow> changePage ver 1 resp st = st)"
  by (auto simp: changePage_def Let_def requests_fetchTableData)

theorem changePage_fetches_iff_in_range_witness:
  "requests (changePage V1 1 NetworkError (initial\<lparr>totalPages := 3\<rparr>)) =
     [GET ''http://127.0.0.1:8001/api/localities/?page=2&search='']
   \<and> changePage V2 (- 1) NetworkError (initial\<lparr>totalPages := 3\<rparr>) = initial\<lparr>totalPages := 3\<rparr>
   \<and> changePage V2 1 NetworkError (initial\<lparr>currentPage := 3, totalPages := 3\<rparr>)
       = initial\<lparr>currentPage := 3, totalPages := 3\<rparr>"
  using changePage_fetches_iff_in_range [of "initial\<lparr>totalPages := 3\<rparr>" 1 V1 NetworkError]
    changePage_fetches_iff_in_range [of "initial\<lparr>totalPages := 3\<rparr>" "- 1" V2 NetworkError]
    changePage_fetches_iff_in_range
      [of "initial\<lparr>currentPage := 3, totalPages := 3\<rparr>" 1 V2 NetworkError]
  by (simp add: initial_def API_BASE_def Number_toString_2 requests_fetchTableData)

section \<open>The edit state\<close>

lemma shape_setEditSelect: "map tr_shape (setEditSelect i new trs) = map tr_shape trs"
  by (induction trs) (auto simp: tr_shape_def split: locality_cell.splits)

lemma shape_renderRow:
  "map tr_shape (renderRow ver st tbody row) = map tr_shape tbody @ [row_shape st row]"
  by (simp add: renderRow_def Let_def shape_setEditSelect tr_shape_def row_shape_def
           split: option.splits)

lemma shape_foldl_renderRow:
  "map tr_shape (foldl (renderRow ver st) tbody rows) =
     map tr_shape tbody @ map (row_shape st) rows"
  by (induction rows arbitrary: tbody) (simp_all add: shape_renderRow)

lemma shape_renderTable:
  "map tr_shape (viewTableBody (renderTable ver rows st)) = map (row_shape st) rows"
  by (simp add: renderTable_def shape_foldl_renderRow)

lemma isEditing_frame:
  "editingRowId st' = editingRowId st \<Longrightarrow> isEditing st' = isEditing st"
  by (simp add: isEditing_def fun_eq_iff)

lemma editingRowId_renderTable: "editingRowId (renderTable ver rows st) = editingRowId st"
  by (simp add: renderTable_def)

lemma editingRowId_fetchTableData:
  "editingRowId (fetchTableData ver page resp st) = editingRowId st"
  by (simp add: fetchTableData_def Let_def send_def console_error_def editingRowId_renderTable
           split: response.splits option.splits)

lemma shape_fetchTableData:
  "map tr_shape (viewTableBody (fetchTableData ver page (Response ok (Some data)) st)) =
     map (row_shape st) (case td_results data of None \<Rightarrow> [] | Some rs \<Rightarrow> rs)"
proof -
  have "row_shape (send r st) = row_shape st" for r
    by (simp add: row_shape_def isEditing_def send_def fun_eq_iff)
  then show ?thesis
    by (simp add: fetchTableData_def Let_def shape_renderTable)
qed

lemma filter_key_distinct:
  "distinct (map f xs) \<Longrightarrow> length (filter (\<lambda>x. f x = k) xs) \<le> 1"
  by (induction xs) (auto simp: filter_empty_conv image_iff)

lemma editing_rows_renderTable:
  "filter (\<lambda>tr. is_Editing (localityCell tr)) (viewTableBody (renderTable ver rows st)) =
   filter (\<lambda>tr. editingRowId st = Some (tr_id tr)) (viewTableBody (renderTable ver rows st))"
proof -
  have "\<forall>s \<in> set (map tr_shape (viewTableBody (renderTable ver rows st))).
          fst (snd s) = (editingRowId st = Some (fst s))"
    unfolding shape_renderTable by (auto simp: row_shape_def isEditing_def)
  then have "\<forall>tr \<in> set (viewTableBody (renderTable ver rows st)).
          is_Editing (localityCell tr) = (editingRowId st = Some (tr_id tr))"
    by (simp add: tr_shape_def)
  then show ?thesis
    by (simp cong: filter_cong)
qed

lemma ids_renderTable: "map tr_id (viewTableBody (renderTable ver rows st)) = map row_id rows"
proof -
  have "map fst (map tr_shape (viewTableBody (renderTable ver rows st))) =
        map fst (map (row_shape st) rows)"
    by (simp only: shape_renderTable)
  then show ?thesis
    by (simp add: tr_shape_def row_shape_def comp_def)
qed

lemma at_most_one_editing:
  assumes "distinct (map row_id rows)"
  shows "length (filter (\<lambda>tr. is_Editing (localityCell tr))
                   (viewTableBody (renderTable ver rows st))) \<le> 1"
proof (cases "editingRowId st")
  case None
  then show ?thesis
    by (simp add: editing_rows_renderTable)
next
  case (Some e)
  from assms have "distinct (map tr_id (viewTableBody (renderTable ver rows st)))"
    by (simp add: ids_renderTable)
  then have "length (filter (\<lambda>tr. tr_id tr = e) (viewTableBody (renderTable ver rows st))) \<le> 1"
    by (rule filter_key_distinct)
  moreover have "(\<lambda>tr. Some e = Some (tr_id tr)) = (\<lambda>tr::view_tr. tr_id tr = e)"
    by auto
  ultimately show ?thesis
    using Some by (simp add: editing_rows_renderTable)
qed


lemma rendered_after_startEdit:
  assumes "tr \<in> set (viewTableBody (startEdit ver b (Response ok (Some data)) st))"
  shows "is_Editing (localityCell tr) = (tr_id tr = b)
     \<and> actionCell tr = (if tr_id tr = b then SaveCancelButtons (tr_id tr)
                         else EditButton (tr_id tr))"
proof -
  let ?st1 = "st\<lparr>editingRowId := Some b\<rparr>"
  let ?rows = "case td_results data of None \<Rightarrow> [] | Some rs \<Rightarrow> rs"
  have "tr_shape tr \<in> set (map tr_shape
          (viewTableBody (fetchTableData ver (currentPage ?st1) (Response ok (Some data)) ?st1)))"
    using assms by (simp add: startEdit_def Let_def)
  then have "tr_shape tr \<in> set (map (row_shape ?st1) ?rows)"
    by (simp only: shape_fetchTableData)
  then obtain row where "tr_shape tr = row_shape ?st1 row"
    by auto
  then show ?thesis
    by (simp add: tr_shape_def row_shape_def isEditing_def eq_commute)
qed

text \<open>
  Claim C5. The edit state is the one variable \<^verbatim>\<open>editingRowId\<close>. When row \<open>a\<close> is
  being edited and \<^verbatim>\<open>startEdit(b)\<close> is called for another row, the variable holds \<open>b\<close>
  whatever the server answers, so \<open>isEditing\<close> holds of the rows with id \<open>b\<close> and of no
  other; in the table drawn from the response every row with id \<open>a\<close> is back in display
  mode with its edit button, and a row is drawn with a select exactly when its id is \<open>b\<close>.
  Any table \<^verbatim>\<open>renderTable\<close> draws from rows with distinct ids has at most one row in
  editing mode. (When the request fails nothing is drawn, and the table on the page is the
  one drawn before.)
\<close>

theorem startEdit_moves_editing:
  assumes "editingRowId st = Some a" and "a \<noteq> b"
  shows "editingRowId (startEdit ver b resp st) = Some b
     \<and> (\<forall>row. isEditing (startEdit ver b resp st) row \<longleftrightarrow> row_id row = b)
     \<and> (\<forall>tr \<in> set (viewTableBody (startEdit ver b (Response ok (Some data)) st)).
          (tr_id tr = a \<longrightarrow> is_Display (localityCell tr) \<and> actionCell tr = EditButton a)
          \<and> (is_Editing (localityCell tr) \<longleftrightarrow> tr_id tr = b))
     \<and> (distinct (map row_id rows) \<longrightarrow>
          length (filter (\<lambda>tr. is_Editing (localityCell tr))
                    (viewTableBody (renderTable ver rows st))) \<le> 1)"
proof -
  have e: "editingRowId (startEdit ver b resp st) = Some b"
    by (simp add: startEdit_def Let_def editingRowId_fetchTableData)
  have i: "\<forall>row. isEditing (startEdit ver b resp st) row \<longleftrightarrow> row_id row = b"
    unfolding isEditing_def e by auto
  have v: "\<forall>tr \<in> set (viewTableBody (startEdit ver b (Response ok (Some data)) st)).
          (tr_id tr = a \<longrightarrow> is_Display (localityCell tr) \<and> actionCell tr = EditButton a)
          \<and> (is_Editing (localityCell tr) \<longleftrightarrow> tr_id tr = b)"
  proof
    fix tr
    assume "tr \<in> set (viewTableBody (startEdit ver b (Response ok (Some data)) st))"
    then have r: "is_Editing (localityCell tr) = (tr_id tr = b)"
      "actionCell tr = (if tr_id tr = b then SaveCancelButtons (tr_id tr)
                         else EditButton (tr_id tr))"
      using rendered_after_startEdit by blast+
    have d: "is_Display (localityCell tr) = (\<not> is_Editing (localityCell tr))"
      by (cases "localityCell tr") simp_all
    from r d assms(2)
    show "(tr_id tr = a \<longrightarrow> is_Display (localityCell tr) \<and> actionCell tr = EditButton a)
          \<and> (is_Editing (localityCell tr) \<longleftrightarrow> tr_id tr = b)"
      by simp
  qed
  have m: "distinct (map row_id rows) \<longrightarrow>
          length (filter (\<lambda>tr. is_Editing (localityCell tr))
                    (viewTableBody (renderTable ver rows st))) \<le> 1"
    using at_most_one_editing [of rows ver st] by simp
  from e i v m show ?thesis
    by (intro conjI)
qed

theorem startEdit_moves_editing_witness:
  "editingRowId (initial\<lparr>editingRowId := Some 1\<rparr>) = Some 1 \<and> (1::int) \<noteq> 2
   \<and> editingRowId (startEdit V1 2 NetworkError (initial\<lparr>editingRowId := Some 1\<rparr>)) = Some 2
   \<and> \<not> isEditing (startEdit V1 2 NetworkError (initial\<lparr>editingRowId := Some 1\<rparr>))
         \<lparr>row_id = 1, row_address = ''12 Main St'', row_locality = None,
          row_locality_id = None\<rparr>"
proof -
  have h: "editingRowId (initial\<lparr>editingRowId := Some 1\<rparr>) = Some 1"
    by simp
  have n: "(1::int) \<noteq> 2"
    by simp
  from startEdit_moves_editing [where ver = V1 and resp = NetworkError, OF h n] h n
  show ?thesis
    by simp
qed

section \<open>The selection in bulk mode\<close>

text \<open>
  Claim C4. A run of \<^verbatim>\<open>fetchBulkData\<close> that completes leaves the selection empty,
  whatever it held before; and it completes on every response that carries the record count
  and the rows.
\<close>

theorem fetchBulkData_clears_selection:
  "(fetchBulkData page resp st = (Completed, st') \<longrightarrow> bulkSelection st' = [])
   \<and> (resp = Response ok (Some \<lparr>bd_total_records = Some n, bd_results = Some rows\<rparr>) \<longrightarrow>
        fst (fetchBulkData page resp st) = Completed
        \<and> bulkSelection (snd (fetchBulkData page resp st)) = [])"
  by (auto simp: fetchBulkData_def Let_def split: response.splits option.splits)

theorem fetchBulkData_clears_selection_witness:
  "fst (fetchBulkData 1 (Response True (Some \<lparr>bd_total_records = Some 2,
          bd_results = Some [\<lparr>pend_id = 3, pend_address = ''12 Main St''\<rparr>,
                             \<lparr>pend_id = 5, pend_address = ''40 Main St''\<rparr>]\<rparr>))
        (initial\<lparr>bulkSelection := [JStr ''8'', JStr ''9'']\<rparr>)) = Completed
   \<and> bulkSelection (snd (fetchBulkData 1 (Response True (Some \<lparr>bd_total_records = Some 2,
          bd_results = Some [\<lparr>pend_id = 3, pend_address = ''12 Main St''\<rparr>,
                             \<lparr>pend_id = 5, pend_address = ''40 Main St''\<rparr>]\<rparr>))
        (initial\<lparr>bulkSelection := [JStr ''8'', JStr ''9'']\<rparr>))) = []"
  using fetchBulkData_clears_selection [of 1 "Response True (Some \<lparr>bd_total_records = Some 2,
          bd_results = Some [\<lparr>pend_id = 3, pend_address = ''12 Main St''\<rparr>,
                             \<lparr>pend_id = 5, pend_address = ''40 Main St''\<rparr>]\<rparr>)"
        "initial\<lparr>bulkSelection := [JStr ''8'', JStr ''9'']\<rparr>" _ True 2]
  by simp

lemma chk_member_checked [simp]: "chk_member ver (c\<lparr>checked := b\<rparr>) = chk_member ver c"
  by (cases ver) (simp_all add: chk_member_def)





lemma updateBulkSet_frame:
  "updateBulkSet ver c st = st\<lparr>bulkSelection := bulkSelection (updateBulkSet ver c st)\<rparr>"
  by (simp add: updateBulkSet_def)























section \<open>Committing a bulk assignment\<close>

text \<open>
  Claim C7. \<^verbatim>\<open>saveBulk\<close> with an empty selection or an empty locality choice only
  shows a warning: the state is otherwise unchanged and no request is sent. With both
  non-empty and a response whose \<^verbatim>\<open>success\<close> is truthy, it tells the user the count the
  server reports, then searches again with the current query from page 1 and reloads page 1
  of the view tab; when that search answers with its rows the selection is empty again.
\<close>

theorem saveBulk_guard_and_success:
  "(bulkSelection st = [] \<or> select_value (bulkLocalitySelect st) = [] \<longrightarrow>
      saveBulk ver post_resp bulk_resp table_resp st =
        (Completed, st\<lparr>alerts := alerts st @ [''Select addresses and locality!'']\<rparr>))
   \<and> (bulkSelection st \<noteq> [] \<and> select_value (bulkLocalitySelect st) \<noteq> []
        \<and> post_resp = Response ok (Some data)
        \<and> get data ''success'' = Inr success \<and> truthy success
        \<and> get data ''count'' = Inr cnt \<longrightarrow>
        fst (saveBulk ver post_resp bulk_resp table_resp st) = Completed
        \<and> alerts (snd (saveBulk ver post_resp bulk_resp table_resp st)) =
            alerts st @ [''Updated '' @ toString cnt @ '' addresses!'']
        \<and> requests (snd (saveBulk ver post_resp bulk_resp table_resp st)) =
            requests st @
              [POST (API_BASE @ ''/bulk-save/'')
                 (case ver of
                    V1 \<Rightarrow> [(''address_ids'', JArr (bulkSelection st)),
                            (''locality_id'', JStr (select_value (bulkLocalitySelect st)))]
                  | V2 \<Rightarrow> [(''address_ids'', JArr (bulkSelection st)),
                            (''locality_id'', JStr (select_value (bulkLocalitySelect st))),
                            (''locality_name'', JStr (select_value (bulkLocalitySelect st)))]),
               GET (API_BASE @ ''/search-pending/?q='' @ bulkSearch st @ ''&page=1''),
               GET (API_BASE @ ''/localities/?page=1&search='' @ viewSearch st)]
        \<and> (bulk_resp = Response ok' (Some \<lparr>bd_total_records = Some n, bd_results = Some rows\<rparr>)
             \<longrightarrow> bulkSelection (snd (saveBulk ver post_resp bulk_resp table_resp st)) = []))"
proof -
  have guard: "saveBulk ver post_resp bulk_resp table_resp st =
        (Completed, st\<lparr>alerts := alerts st @ [''Select addresses and locality!'']\<rparr>)"
    if "bulkSelection st = [] \<or> select_value (bulkLocalitySelect st) = []"
    using that by (auto simp: saveBulk_def Let_def alert_def)
  have ok: "fst (saveBulk ver post_resp bulk_resp table_resp st) = Completed
        \<and> alerts (snd (saveBulk ver post_resp bulk_resp table_resp st)) =
            alerts st @ [''Updated '' @ toString cnt @ '' addresses!'']
        \<and> requests (snd (saveBulk ver post_resp bulk_resp table_resp st)) =
            requests st @
              [POST (API_BASE @ ''/bulk-save/'')
                 (case ver of
                    V1 \<Rightarrow> [(''address_ids'', JArr (bulkSelection st)),
                            (''locality_id'', JStr (select_value (bulkLocalitySelect st)))]
                  | V2 \<Rightarrow> [(''address_ids'', JArr (bulkSelection st)),
                            (''locality_id'', JStr (select_value (bulkLocalitySelect st))),
                            (''locality_name'', JStr (select_value (bulkLocalitySelect st)))]),
               GET (API_BASE @ ''/search-pending/?q='' @ bulkSearch st @ ''&page=1''),
               GET (API_BASE @ ''/localities/?page=1&search='' @ viewSearch st)]
        \<and> (bulk_resp = Response ok' (Some \<lparr>bd_total_records = Some n, bd_results = Some rows\<rparr>)
             \<longrightarrow> bulkSelection (snd (saveBulk ver post_resp bulk_resp table_resp st)) = [])"
    if a: "bulkSelection st \<noteq> []" "select_value (bulkLocalitySelect st) \<noteq> []"
      "post_resp = Response ok (Some data)"
      "get data ''success'' = Inr success" "truthy success"
      "get data ''count'' = Inr cnt"
  proof -
    let ?payload = "(case ver of
                    V1 \<Rightarrow> [(''address_ids'', JArr (bulkSelection st)),
                            (''locality_id'', JStr (select_value (bulkLocalitySelect st)))]
                  | V2 \<Rightarrow> [(''address_ids'', JArr (bulkSelection st)),
                            (''locality_id'', JStr (select_value (bulkLocalitySelect st))),
                            (''locality_name'', JStr (select_value (bulkLocalitySelect st)))])"
    let ?st2 = "alert (''Updated '' @ toString cnt @ '' addresses!'')
                  (send (POST (API_BASE @ ''/bulk-save/'') ?payload) st)"
    have eq: "saveBulk ver post_resp bulk_resp table_resp st =
            (Completed, fetchTableData ver 1 table_resp (snd (fetchBulkData 1 bulk_resp ?st2)))"
      using a by (simp add: saveBulk_def Let_def)
    have sel: "bulkSelection (fetchTableData ver 1 table_resp s) = bulkSelection s" for s
      by (simp add: fetchTableData_def Let_def send_def console_error_def renderTable_def
            split: response.splits option.splits)
    have b: "bulkSelection (snd (fetchBulkData 1
               (Response ok' (Some \<lparr>bd_total_records = Some n, bd_results = Some rows\<rparr>)) s)) = []"
      for s
      by (simp add: fetchBulkData_def Let_def)
    show ?thesis
      unfolding eq
      by (simp add: alerts_fetchTableData alerts_fetchBulkData requests_fetchTableData
            requests_fetchBulkData viewSearch_fetchBulkData sel b
            alert_def send_def Number_toString_1)
  qed
  from guard ok show ?thesis
    by blast
qed

theorem saveBulk_guard_and_success_witness:
  "saveBulk V1 (Response True (Some (JObj [(''success'', JBool True), (''count'', JNum 1)])))
     NetworkError NetworkError initial
   = (Completed, initial\<lparr>alerts := [''Select addresses and locality!'']\<rparr>)
   \<and> alerts (snd (saveBulk V1
         (Response True (Some (JObj [(''success'', JBool True), (''count'', JNum 1)])))
         NetworkError NetworkError
         (initial\<lparr>bulkSelection := [JStr ''3''],
                  bulkLocalitySelect :=
                    \<lparr>options = [\<lparr>opt_value = [], opt_text = ''-- Select --''\<rparr>,
                                \<lparr>opt_value = ''7'', opt_text = ''Central''\<rparr>],
                     selectedIndex = Some 1\<rparr>\<rparr>)))
     = [''Updated 1 addresses!'']"
  using saveBulk_guard_and_success
          [where st = initial and ver = V1
             and post_resp = "Response True (Some (JObj [(''success'', JBool True), (''count'', JNum 1)]))"
             and bulk_resp = NetworkError and table_resp = NetworkError]
        saveBulk_guard_and_success
          [where st = "initial\<lparr>bulkSelection := [JStr ''3''],
                  bulkLocalitySelect :=
                    \<lparr>options = [\<lparr>opt_value = [], opt_text = ''-- Select --''\<rparr>,
                                \<lparr>opt_value = ''7'', opt_text = ''Central''\<rparr>],
                     selectedIndex = Some 1\<rparr>\<rparr>"
             and ver = V1 and ok = True
             and data = "JObj [(''success'', JBool True), (''count'', JNum 1)]"
             and success = "JBool True" and cnt = "JNum 1"
             and post_resp = "Response True (Some (JObj [(''success'', JBool True), (''count'', JNum 1)]))"
             and bulk_resp = NetworkError and table_resp = NetworkError]
  by (simp add: initial_def select_value_def Number_toString_1)

section \<open>Committing a single assignment\<close>

lemma currentPendingItem_fetchTableData:
  "currentPendingItem (fetchTableData ver page resp st) = currentPendingItem st"
  by (simp add: fetchTableData_def Let_def send_def console_error_def renderTable_def
           split: response.splits option.splits)

lemma viewSearch_postData:
  "viewSearch (snd (postData ver endpoint body resp st)) = viewSearch st"
  by (subst postData_frame) simp

lemma currentPendingItem_fetchNextPending:
  "currentPendingItem (fetchNextPending (Response ok (Some data)) st) =
     (if np_found data then np_data data else None)"
  by (simp add: fetchNextPending_def Let_def send_def console_error_def split: option.splits)

lemma saveSinglePending_guard:
  "currentPendingItem st = None \<or> select_value (singleLocalitySelect st) = [] \<Longrightarrow>
   saveSinglePending ver post_resp next_resp table_resp count_resp st =
     (Completed, st\<lparr>alerts := alerts st @ [''Select a locality!'']\<rparr>)"
  by (auto simp: saveSinglePending_def Let_def alert_def split: option.splits)

lemma saveSinglePending_rejected:
  assumes "currentPendingItem st = Some item"
      and "select_value (singleLocalitySelect st) \<noteq> []"
      and "\<not> truthy (fst (postData ver ''/save-mapping/''
                   (mapping_body ver (pend_id item) (select_value (singleLocalitySelect st)))
                   post_resp st))"
  shows "saveSinglePending ver post_resp next_resp table_resp count_resp st =
           (Completed, snd (postData ver ''/save-mapping/''
                   (mapping_body ver (pend_id item) (select_value (singleLocalitySelect st)))
                   post_resp st))"
  using assms by (simp add: saveSinglePending_def Let_def split_beta)

lemma saveSinglePending_accepted:
  assumes "currentPendingItem st = Some item"
      and "select_value (singleLocalitySelect st) \<noteq> []"
      and "truthy (fst (postData ver ''/save-mapping/''
                   (mapping_body ver (pend_id item) (select_value (singleLocalitySelect st)))
                   post_resp st))"
  shows "saveSinglePending ver post_resp next_resp table_resp count_resp st =
           (let st2 = fetchNextPending next_resp
                        (snd (postData ver ''/save-mapping/''
                           (mapping_body ver (pend_id item)
                              (select_value (singleLocalitySelect st))) post_resp st));
                st3 = (case ver of V1 \<Rightarrow> st2 | V2 \<Rightarrow> fetchTableData V2 1 table_resp st2);
                st4 = send (GET (API_BASE @ ''/localities/?page=1'')) st3
            in case count_resp of
                 NetworkError \<Rightarrow> (Threw NetworkFailure, st4)
               | Response ok None \<Rightarrow> (Threw SyntaxError, st4)
               | Response ok (Some data) \<Rightarrow>
                   (Completed, st4\<lparr>globalPendingCount :=
                       Number_toString (or_zero (td_global_pending data))\<rparr>))"
  using assms by (simp add: saveSinglePending_def Let_def split_beta)

lemma requests_after_accepted_post:
  "requests (case ver of
               V1 \<Rightarrow> fetchNextPending next_resp (snd (postData ver endpoint body post_resp st))
             | V2 \<Rightarrow> fetchTableData V2 1 table_resp
                       (fetchNextPending next_resp (snd (postData ver endpoint body post_resp st))))
   = requests st @ [POST (API_BASE @ endpoint) body, GET (API_BASE @ ''/next-pending/'')]
       @ (case ver of V1 \<Rightarrow> []
          | V2 \<Rightarrow> [GET (API_BASE @ ''/localities/?page=1&search='' @ viewSearch st)])"
  by (cases ver)
     (simp_all add: requests_fetchTableData requests_fetchNextPending requests_postData
        viewSearch_fetchNextPending viewSearch_postData Number_toString_1)

lemma saveSinglePending_accepted_requests:
  assumes "currentPendingItem st = Some item"
      and "select_value (singleLocalitySelect st) \<noteq> []"
      and "truthy (fst (postData ver ''/save-mapping/''
                   (mapping_body ver (pend_id item) (select_value (singleLocalitySelect st)))
                   post_resp st))"
  shows "requests (snd (saveSinglePending ver post_resp next_resp table_resp count_resp st)) =
          requests st @
            [POST (API_BASE @ ''/save-mapping/'')
               (mapping_body ver (pend_id item) (select_value (singleLocalitySelect st))),
             GET (API_BASE @ ''/next-pending/'')]
            @ (case ver of V1 \<Rightarrow> []
               | V2 \<Rightarrow> [GET (API_BASE @ ''/localities/?page=1&search='' @ viewSearch st)])
            @ [GET (API_BASE @ ''/localities/?page=1'')]"
  unfolding saveSinglePending_accepted [OF assms] Let_def
  by (simp add: send_def requests_after_accepted_post split: response.splits option.splits)

lemma saveSinglePending_first_request:
  assumes "currentPendingItem st = Some item"
      and "select_value (singleLocalitySelect st) \<noteq> []"
  shows "requests (snd (saveSinglePending ver post_resp next_resp table_resp count_resp st))
           ! length (requests st) =
         POST (API_BASE @ ''/save-mapping/'')
           (mapping_body ver (pend_id item) (select_value (singleLocalitySelect st)))"
proof (cases "truthy (fst (postData ver ''/save-mapping/''
                   (mapping_body ver (pend_id item) (select_value (singleLocalitySelect st)))
                   post_resp st))")
  case True
  show ?thesis
    unfolding saveSinglePending_accepted_requests [OF assms True]
    by (simp add: nth_append)
next
  case False
  show ?thesis
    unfolding saveSinglePending_rejected [OF assms False]
    by (simp add: requests_postData)
qed

lemma saveSinglePending_accepted_state:
  assumes "currentPendingItem st = Some item"
      and "select_value (singleLocalitySelect st) \<noteq> []"
      and "truthy (fst (postData ver ''/save-mapping/''
                   (mapping_body ver (pend_id item) (select_value (singleLocalitySelect st)))
                   post_resp st))"
  shows "next_resp = Response ok (Some next) \<longrightarrow>
           currentPendingItem
             (snd (saveSinglePending ver post_resp next_resp table_resp count_resp st)) =
           (if np_found next then np_data next else None)"
    and "count_resp = Response ok' (Some data) \<longrightarrow>
           fst (saveSinglePending ver post_resp next_resp table_resp count_resp st) = Completed
           \<and> globalPendingCount
               (snd (saveSinglePending ver post_resp next_resp table_resp count_resp st)) =
             Number_toString (or_zero (td_global_pending data))"
proof -
  show "next_resp = Response ok (Some next) \<longrightarrow>
           currentPendingItem
             (snd (saveSinglePending ver post_resp next_resp table_resp count_resp st)) =
           (if np_found next then np_data next else None)"
    unfolding saveSinglePending_accepted [OF assms] Let_def
    by (cases ver)
       (simp_all add: send_def currentPendingItem_fetchTableData
          currentPendingItem_fetchNextPending split: response.splits option.splits)
  show "count_resp = Response ok' (Some data) \<longrightarrow>
           fst (saveSinglePending ver post_resp next_resp table_resp count_resp st) = Completed
           \<and> globalPendingCount
               (snd (saveSinglePending ver post_resp next_resp table_resp count_resp st)) =
             Number_toString (or_zero (td_global_pending data))"
    unfolding saveSinglePending_accepted [OF assms] Let_def
    by simp
qed

text \<open>
  Claim C6. \<^verbatim>\<open>saveSinglePending\<close> posts only when a pending item is loaded and a
  locality is selected. Without either it sends nothing and only shows the warning. With
  both it posts the mapping; and when that post succeeds it asks for the next pending item,
  which replaces the current one, and asks for page 1 of the address list, whose pending
  count it writes to the counter.
\<close>

theorem saveSinglePending_guard_and_success:
  "(currentPendingItem st = None \<or> select_value (singleLocalitySelect st) = [] \<longrightarrow>
      saveSinglePending ver post_resp next_resp table_resp count_resp st =
        (Completed, st\<lparr>alerts := alerts st @ [''Select a locality!'']\<rparr>))
   \<and> (currentPendingItem st = Some item \<and> select_value (singleLocalitySelect st) \<noteq> [] \<longrightarrow>
        requests (snd (saveSinglePending ver post_resp next_resp table_resp count_resp st))
          ! length (requests st) =
        POST (API_BASE @ ''/save-mapping/'')
          (mapping_body ver (pend_id item) (select_value (singleLocalitySelect st))))
   \<and> (currentPendingItem st = Some item \<and> select_value (singleLocalitySelect st) \<noteq> []
        \<and> truthy (fst (postData ver ''/save-mapping/''
                     (mapping_body ver (pend_id item) (select_value (singleLocalitySelect st)))
                     post_resp st)) \<longrightarrow>
        requests (snd (saveSinglePending ver post_resp next_resp table_resp count_resp st)) =
          requests st @
            [POST (API_BASE @ ''/save-mapping/'')
               (mapping_body ver (pend_id item) (select_value (singleLocalitySelect st))),
             GET (API_BASE @ ''/next-pending/'')]
            @ (case ver of V1 \<Rightarrow> []
               | V2 \<Rightarrow> [GET (API_BASE @ ''/localities/?page=1&search='' @ viewSearch st)])
            @ [GET (API_BASE @ ''/localities/?page=1'')]
        \<and> (next_resp = Response ok (Some next) \<longrightarrow>
             currentPendingItem
               (snd (saveSinglePending ver post_resp next_resp table_resp count_resp st)) =
             (if np_found next then np_data next else None))
        \<and> (count_resp = Response ok' (Some data) \<longrightarrow>
             fst (saveSinglePending ver post_resp next_resp table_resp count_resp st) = Completed
             \<and> globalPendingCount
                 (snd (saveSinglePending ver post_resp next_resp table_resp count_resp st)) =
               Number_toString (or_zero (td_global_pending data))))"
proof (intro conjI impI)
  assume "currentPendingItem st = None \<or> select_value (singleLocalitySelect st) = []"
  then show "saveSinglePending ver post_resp next_resp table_resp count_resp st =
        (Completed, st\<lparr>alerts := alerts st @ [''Select a locality!'']\<rparr>)"
    by (rule saveSinglePending_guard)
next
  assume "currentPendingItem st = Some item \<and> select_value (singleLocalitySelect st) \<noteq> []"
  then show "requests (snd (saveSinglePending ver post_resp next_resp table_resp count_resp st))
          ! length (requests st) =
        POST (API_BASE @ ''/save-mapping/'')
          (mapping_body ver (pend_id item) (select_value (singleLocalitySelect st)))"
    by (simp add: saveSinglePending_first_request)
next
  assume a: "currentPendingItem st = Some item \<and> select_value (singleLocalitySelect st) \<noteq> []
        \<and> truthy (fst (postData ver ''/save-mapping/''
                     (mapping_body ver (pend_id item) (select_value (singleLocalitySelect st)))
                     post_resp st))"
  then have a1: "currentPendingItem st = Some item"
    and a2: "select_value (singleLocalitySelect st) \<noteq> []"
    and a3: "truthy (fst (postData ver ''/save-mapping/''
                     (mapping_body ver (pend_id item) (select_value (singleLocalitySelect st)))
                     post_resp st))"
    by simp_all
  show "requests (snd (saveSinglePending ver post_resp next_resp table_resp count_resp st)) =
          requests st @
            [POST (API_BASE @ ''/save-mapping/'')
               (mapping_body ver (pend_id item) (select_value (singleLocalitySelect st))),
             GET (API_BASE @ ''/next-pending/'')]
            @ (case ver of V1 \<Rightarrow> []
               | V2 \<Rightarrow> [GET (API_BASE @ ''/localities/?page=1&search='' @ viewSearch st)])
            @ [GET (API_BASE @ ''/localities/?page=1'')]"
    by (rule saveSinglePending_accepted_requests [OF a1 a2 a3])
  {
    assume n: "next_resp = Response ok (Some next)"
    show "currentPendingItem
               (snd (saveSinglePending ver post_resp next_resp table_resp count_resp st)) =
             (if np_found next then np_data next else None)"
      using saveSinglePending_accepted_state(1) [OF a1 a2 a3] n by blast
  }
  {
    assume c: "count_resp = Response ok' (Some data)"
    show "fst (saveSinglePending ver post_resp next_resp table_resp count_resp st) = Completed"
      using saveSinglePending_accepted_state(2) [OF a1 a2 a3] c by blast
    show "globalPendingCount
                 (snd (saveSinglePending ver post_resp next_resp table_resp count_resp st)) =
               Number_toString (or_zero (td_global_pending data))"
      using saveSinglePending_accepted_state(2) [OF a1 a2 a3] c by blast
  }
qed

theorem saveSinglePending_guard_and_success_witness:
  "saveSinglePending V1 NetworkError NetworkError NetworkError NetworkError initial
     = (Completed, initial\<lparr>alerts := [''Select a locality!'']\<rparr>)
   \<and> globalPendingCount (snd (saveSinglePending V2
         (Response True (Some (JObj [(''success'', JBool True)])))
         (Response True (Some \<lparr>np_found = False, np_data = None\<rparr>))
         NetworkError
         (Response True (Some \<lparr>td_results = None, td_total_pages = None,
                                 td_global_pending = Some 1\<rparr>))
         (initial\<lparr>currentPendingItem := Some \<lparr>pend_id = 3, pend_address = ''12 Main St''\<rparr>,
                  singleLocalitySelect :=
                    \<lparr>options = [\<lparr>opt_value = [], opt_text = ''-- Select --''\<rparr>,
                                \<lparr>opt_value = ''Central'', opt_text = ''Central''\<rparr>],
                     selectedIndex = Some 1\<rparr>\<rparr>))) = ''1''"
proof -
  let ?st = "initial\<lparr>currentPendingItem := Some \<lparr>pend_id = 3, pend_address = ''12 Main St''\<rparr>,
                  singleLocalitySelect :=
                    \<lparr>options = [\<lparr>opt_value = [], opt_text = ''-- Select --''\<rparr>,
                                \<lparr>opt_value = ''Central'', opt_text = ''Central''\<rparr>],
                     selectedIndex = Some 1\<rparr>\<rparr>"
  have p: "currentPendingItem ?st = Some \<lparr>pend_id = 3, pend_address = ''12 Main St''\<rparr>"
    by simp
  have v: "select_value (singleLocalitySelect ?st) = ''Central''"
    by (simp add: select_value_def)
  have t: "truthy (fst (postData V2 ''/save-mapping/''
                     (mapping_body V2 (pend_id \<lparr>pend_id = 3, pend_address = ''12 Main St''\<rparr>)
                        (select_value (singleLocalitySelect ?st)))
                     (Response True (Some (JObj [(''success'', JBool True)]))) ?st))"
    by (simp add: postData_def Let_def)
  have g: "currentPendingItem initial = None"
    by (simp add: initial_def)
  from saveSinglePending_guard_and_success
         [where st = initial and ver = V1 and post_resp = NetworkError
            and next_resp = NetworkError and table_resp = NetworkError
            and count_resp = NetworkError] g
  have one: "saveSinglePending V1 NetworkError NetworkError NetworkError NetworkError initial
     = (Completed, initial\<lparr>alerts := [''Select a locality!'']\<rparr>)"
    by (simp add: initial_def)
  from saveSinglePending_guard_and_success
         [where st = ?st and ver = V2
            and item = "\<lparr>pend_id = 3, pend_address = ''12 Main St''\<rparr>"
            and post_resp = "Response True (Some (JObj [(''success'', JBool True)]))"
            and next_resp = "Response True (Some \<lparr>np_found = False, np_data = None\<rparr>)"
            and table_resp = NetworkError
            and count_resp = "Response True (Some \<lparr>td_results = None, td_total_pages = None,
                                 td_global_pending = Some 1\<rparr>)"
            and ok' = True
            and data = "\<lparr>td_results = None, td_total_pages = None,
                                 td_global_pending = Some 1\<rparr>"] p v t
  have two: "globalPendingCount (snd (saveSinglePending V2
         (Response True (Some (JObj [(''success'', JBool True)])))
         (Response True (Some \<lparr>np_found = False, np_data = None\<rparr>))
         NetworkError
         (Response True (Some \<lparr>td_results = None, td_total_pages = None,
                                 td_global_pending = Some 1\<rparr>)) ?st)) = ''1''"
    by (simp add: or_zero_def Number_toString_1)
  from one two show ?thesis
    by simp
qed

section \<open>How the two versions key a locality\<close>

lemma foldl_appendChild:
  "foldl (\<lambda>s x. appendChild (f x) False s) sel xs =
     \<lparr>options = options sel @ map f xs,
      selectedIndex = (if xs = [] then selectedIndex sel
                       else case selectedIndex sel of None \<Rightarrow> Some 0 | Some i \<Rightarrow> Some i)\<rparr>"
proof (induction xs arbitrary: sel)
  case Nil
  then show ?case by simp
next
  case (Cons x xs)
  show ?case
    unfolding foldl_Cons Cons.IH
    by (simp add: appendChild_def split: option.splits)
qed

lemma singleLocalitySelect_populateDropdown:
  "singleLocalitySelect (populateDropdown ver SingleLocalitySelect ms st) =
     \<lparr>options = \<lparr>opt_value = [], opt_text = ''-- Select --''\<rparr> # map (locality_option ver) ms,
      selectedIndex = Some 0\<rparr>"
  by (simp add: populateDropdown_def Let_def set_select_def foldl_appendChild)

lemma populateDropdown_frame:
  "populateDropdown ver SingleLocalitySelect ms st =
     st\<lparr>singleLocalitySelect :=
          singleLocalitySelect (populateDropdown ver SingleLocalitySelect ms st)\<rparr>"
  by (simp add: populateDropdown_def Let_def set_select_def)

lemma select_value_pick_option:
  "i < length opts \<Longrightarrow>
   select_value (pick_option i \<lparr>options = opts, selectedIndex = k\<rparr>) = opt_value (opts ! i)"
  by (simp add: pick_option_def select_value_def)

lemma options_pick_option: "options (pick_option i s) = options s"
  by (simp add: pick_option_def)

text \<open>
  Claim C3. From the same master list, version 1 fills the locality drop-down with the
  decimal text of each locality's numeric id as the value and its \<^verbatim>\<open>locality_name\<close> as the
  label; version 2 uses the \<^verbatim>\<open>locality\<close> name for both. With the same entry chosen for
  the same pending address, version 1 posts that id as \<^verbatim>\<open>locality_id\<close>, version 2 posts
  the name as \<^verbatim>\<open>locality_id\<close> and again as \<^verbatim>\<open>locality_name\<close> (or nothing, when the
  name is empty), so the two never send the same requests.
\<close>

theorem locality_keyed_by_id_or_by_name:
  assumes "i < length ms"
  shows
    "let d1 = populateDropdown V1 SingleLocalitySelect ms st;
         d2 = populateDropdown V2 SingleLocalitySelect ms st;
         st1 = d1\<lparr>singleLocalitySelect := pick_option (Suc i) (singleLocalitySelect d1),
                  currentPendingItem := Some item\<rparr>;
         st2 = d2\<lparr>singleLocalitySelect := pick_option (Suc i) (singleLocalitySelect d2),
                  currentPendingItem := Some item\<rparr>;
         run1 = saveSinglePending V1 post_resp next_resp table_resp count_resp st1;
         run2 = saveSinglePending V2 post_resp next_resp table_resp count_resp st2
     in options (singleLocalitySelect st1) =
          \<lparr>opt_value = [], opt_text = ''-- Select --''\<rparr>
          # map (\<lambda>l. \<lparr>opt_value = Number_toString (loc_id l), opt_text = locality_name l\<rparr>) ms
      \<and> options (singleLocalitySelect st2) =
          \<lparr>opt_value = [], opt_text = ''-- Select --''\<rparr>
          # map (\<lambda>l. \<lparr>opt_value = locality l, opt_text = locality l\<rparr>) ms
      \<and> requests (snd run1) ! length (requests st) =
          POST (API_BASE @ ''/save-mapping/'')
            [(''address_id'', JNum (pend_id item)),
             (''locality_id'', JStr (Number_toString (loc_id (ms ! i))))]
      \<and> (locality (ms ! i) \<noteq> [] \<longrightarrow>
          requests (snd run2) ! length (requests st) =
            POST (API_BASE @ ''/save-mapping/'')
              [(''address_id'', JNum (pend_id item)),
               (''locality_id'', JStr (locality (ms ! i))),
               (''locality_name'', JStr (locality (ms ! i)))])
      \<and> requests (snd run1) \<noteq> requests (snd run2)"
proof -
  define d1 where "d1 = populateDropdown V1 SingleLocalitySelect ms st"
  define d2 where "d2 = populateDropdown V2 SingleLocalitySelect ms st"
  define st1 where "st1 = d1\<lparr>singleLocalitySelect := pick_option (Suc i) (singleLocalitySelect d1),
                  currentPendingItem := Some item\<rparr>"
  define st2 where "st2 = d2\<lparr>singleLocalitySelect := pick_option (Suc i) (singleLocalitySelect d2),
                  currentPendingItem := Some item\<rparr>"
  define run1 where "run1 = saveSinglePending V1 post_resp next_resp table_resp count_resp st1"
  define run2 where "run2 = saveSinglePending V2 post_resp next_resp table_resp count_resp st2"
  have rq1: "requests st1 = requests st"
    unfolding st1_def d1_def by (subst populateDropdown_frame) simp
  have rq2: "requests st2 = requests st"
    unfolding st2_def d2_def by (subst populateDropdown_frame) simp
  have o1: "options (singleLocalitySelect st1) =
          \<lparr>opt_value = [], opt_text = ''-- Select --''\<rparr>
          # map (\<lambda>l. \<lparr>opt_value = Number_toString (loc_id l), opt_text = locality_name l\<rparr>) ms"
    by (simp add: st1_def d1_def options_pick_option singleLocalitySelect_populateDropdown
          locality_option_def)
  have o2: "options (singleLocalitySelect st2) =
          \<lparr>opt_value = [], opt_text = ''-- Select --''\<rparr>
          # map (\<lambda>l. \<lparr>opt_value = locality l, opt_text = locality l\<rparr>) ms"
    by (simp add: st2_def d2_def options_pick_option singleLocalitySelect_populateDropdown
          locality_option_def)
  have v1: "select_value (singleLocalitySelect st1) = Number_toString (loc_id (ms ! i))"
    using assms
    by (simp add: st1_def d1_def singleLocalitySelect_populateDropdown select_value_pick_option
          locality_option_def)
  have v2: "select_value (singleLocalitySelect st2) = locality (ms ! i)"
    using assms
    by (simp add: st2_def d2_def singleLocalitySelect_populateDropdown select_value_pick_option
          locality_option_def)
  have p1: "currentPendingItem st1 = Some item" and p2: "currentPendingItem st2 = Some item"
    by (simp_all add: st1_def st2_def)
  have ne1: "select_value (singleLocalitySelect st1) \<noteq> []"
    by (simp add: v1 Number_toString_nonempty)
  have r1: "requests (snd run1) ! length (requests st) =
          POST (API_BASE @ ''/save-mapping/'')
            [(''address_id'', JNum (pend_id item)),
             (''locality_id'', JStr (Number_toString (loc_id (ms ! i))))]"
    using saveSinglePending_first_request
            [OF p1 ne1, of V1 post_resp next_resp table_resp count_resp]
    by (simp add: run1_def rq1 v1 mapping_body_def)
  have r2: "requests (snd run2) ! length (requests st) =
            POST (API_BASE @ ''/save-mapping/'')
              [(''address_id'', JNum (pend_id item)),
               (''locality_id'', JStr (locality (ms ! i))),
               (''locality_name'', JStr (locality (ms ! i)))]"
    if "locality (ms ! i) \<noteq> []"
  proof -
    from that have ne2: "select_value (singleLocalitySelect st2) \<noteq> []"
      by (simp add: v2)
    from saveSinglePending_first_request
            [OF p2 ne2, of V2 post_resp next_resp table_resp count_resp]
    show ?thesis
      by (simp add: run2_def rq2 v2 mapping_body_def)
  qed
  have differ: "requests (snd run1) \<noteq> requests (snd run2)"
  proof (cases "locality (ms ! i) = []")
    case True
    then have "run2 = (Completed, st2\<lparr>alerts := alerts st2 @ [''Select a locality!'']\<rparr>)"
      using saveSinglePending_guard
            [of st2 V2 post_resp next_resp table_resp count_resp]
      by (simp add: run2_def v2)
    then have "requests (snd run2) = requests st"
      by (simp add: rq2)
    moreover have "length (requests (snd run1)) > length (requests st)"
    proof (cases "truthy (fst (postData V1 ''/save-mapping/''
                     (mapping_body V1 (pend_id item) (select_value (singleLocalitySelect st1)))
                     post_resp st1))")
      case True
      from saveSinglePending_accepted_requests
             [OF p1 ne1 True, of next_resp table_resp count_resp]
      show ?thesis
        by (simp add: run1_def rq1)
    next
      case False
      from saveSinglePending_rejected
             [OF p1 ne1 False, of next_resp table_resp count_resp]
      show ?thesis
        by (simp add: run1_def requests_postData rq1)
    qed
    ultimately show ?thesis
      by auto
  next
    case False
    from r1 r2 [OF False] show ?thesis
      by auto
  qed
  from o1 o2 r1 r2 differ show ?thesis
    unfolding Let_def d1_def [symmetric] d2_def [symmetric] st1_def [symmetric]
      st2_def [symmetric] run1_def [symmetric] run2_def [symmetric]
    by blast
qed

theorem locality_keyed_by_id_or_by_name_witness:
  "(0::nat) < length [\<lparr>loc_id = 5, locality_name = ''Alpha'', locality = ''Alpha'',
                       billing_zone = None, zone = None\<rparr>]
   \<and> requests (snd (saveSinglePending V1 NetworkError NetworkError NetworkError NetworkError
         ((populateDropdown V1 SingleLocalitySelect
             [\<lparr>loc_id = 5, locality_name = ''Alpha'', locality = ''Alpha'',
               billing_zone = None, zone = None\<rparr>] initial)
          \<lparr>singleLocalitySelect :=
             pick_option (Suc 0) (singleLocalitySelect (populateDropdown V1 SingleLocalitySelect
               [\<lparr>loc_id = 5, locality_name = ''Alpha'', locality = ''Alpha'',
                 billing_zone = None, zone = None\<rparr>] initial)),
           currentPendingItem := Some \<lparr>pend_id = 3, pend_address = ''12 Main St''\<rparr>\<rparr>)))
       ! length (requests initial)
     = POST (API_BASE @ ''/save-mapping/'')
         [(''address_id'', JNum 3), (''locality_id'', JStr ''5'')]"
proof -
  have five: "Number_toString 5 = ''5''"
    by code_simp
  have h: "(0::nat) < length [\<lparr>loc_id = 5, locality_name = ''Alpha'', locality = ''Alpha'',
                       billing_zone = None, zone = None\<rparr>]"
    by simp
  from locality_keyed_by_id_or_by_name
         [OF h, where st = initial
            and item = "\<lparr>pend_id = 3, pend_address = ''12 Main St''\<rparr>"
            and post_resp = NetworkError and next_resp = NetworkError
            and table_resp = NetworkError and count_resp = NetworkError]
  show ?thesis
    by (simp add: Let_def five)
qed

section \<open>What the selection holds in each version\<close>




















section \<open>Failed posts\<close>

text \<open>
  What \<^verbatim>\<open>postData\<close> does with a failure: a transport failure shows "Network Error" in
  both versions; version 1 shows the \<^verbatim>\<open>error\<close> of any response whose \<^verbatim>\<open>success\<close> is
  not truthy; version 2 shows the \<^verbatim>\<open>detail\<close> of a response that is not \<^verbatim>\<open>ok\<close>, and
  hands back the \<^verbatim>\<open>success\<close> of one that is, without a message. \<^verbatim>\<open>saveBulk\<close> sends
  its own request, outside \<^verbatim>\<open>postData\<close> and outside any \<^verbatim>\<open>try\<close>.
\<close>

lemma postData_transport_failure:
  "postData ver endpoint body NetworkError st =
     (JBool False, alert ''Network Error'' (send (POST (API_BASE @ endpoint) body) st))"
  by (cases ver) (simp_all add: postData_def Let_def)

lemma postData_V1_rejected:
  assumes "get data ''success'' = Inr success" and "\<not> truthy success"
      and "get data ''error'' = Inr err"
  shows "postData V1 endpoint body (Response ok (Some data)) st =
           (JBool False,
            alert (''Error: '' @ toString err) (send (POST (API_BASE @ endpoint) body) st))"
  using assms by (simp add: postData_def Let_def)

lemma postData_V2_not_ok:
  assumes "get err ''detail'' = Inr detail"
  shows "postData V2 endpoint body (Response False (Some err)) st =
           (JBool False,
            alert (''Error: '' @ (if truthy detail then JSON_stringify detail
                                  else ''Validation Failed''))
              (send (POST (API_BASE @ endpoint) body) st))"
  using assms by (simp add: postData_def Let_def)

lemma postData_V2_ok_returns_success:
  assumes "get data ''success'' = Inr success"
  shows "postData V2 endpoint body (Response True (Some data)) st =
           (success, send (POST (API_BASE @ endpoint) body) st)"
  using assms by (simp add: postData_def Let_def)

lemma saveBulk_rejected:
  assumes "bulkSelection st \<noteq> []" and "select_value (bulkLocalitySelect st) \<noteq> []"
      and "get data ''success'' = Inr success" and "\<not> truthy success"
  shows "alerts (snd (saveBulk ver (Response ok (Some data)) bulk_resp table_resp st)) = alerts st
     \<and> fst (saveBulk ver (Response ok (Some data)) bulk_resp table_resp st) = Completed"
  using assms by (simp add: saveBulk_def Let_def send_def)

lemma saveBulk_transport_failure:
  assumes "bulkSelection st \<noteq> []" and "select_value (bulkLocalitySelect st) \<noteq> []"
  shows "alerts (snd (saveBulk ver NetworkError bulk_resp table_resp st)) = alerts st
     \<and> fst (saveBulk ver NetworkError bulk_resp table_resp st) = Threw NetworkFailure"
  using assms by (simp add: saveBulk_def Let_def send_def)

text \<open>
  Claim C1 says that every mutating operation, \<^verbatim>\<open>saveBulk\<close> among them, shows the
  server's error detail when the response is not a success and a network-error notice when
  the transport fails, and returns a failure signal. \<^verbatim>\<open>saveBulk\<close> shows nothing in
  either case, in either version: with one address selected and a locality chosen, a
  response \<^verbatim>\<open>{success: false, error: "Locality not found"}\<close> (version 1) or a response
  that is not \<^verbatim>\<open>ok\<close> with a \<^verbatim>\<open>detail\<close> (version 2) leaves the alerts empty, and a
  transport failure rejects the promise of \<^verbatim>\<open>saveBulk\<close> with only the request sent.
  \<^verbatim>\<open>postData\<close> of version 2 likewise shows nothing for an \<^verbatim>\<open>ok\<close> response whose
  \<^verbatim>\<open>success\<close> is false.
\<close>

theorem saveBulk_failure_is_silent:
  "alerts (snd (saveBulk V1
      (Response True (Some (JObj [(''success'', JBool False),
                                  (''error'', JStr ''Locality not found'')])))
      NetworkError NetworkError
      (initial\<lparr>bulkSelection := [JStr ''3''],
               bulkLocalitySelect :=
                 \<lparr>options = [\<lparr>opt_value = [], opt_text = ''-- Select --''\<rparr>,
                             \<lparr>opt_value = ''7'', opt_text = ''Central''\<rparr>],
                  selectedIndex = Some 1\<rparr>\<rparr>))) = []
   \<and> alerts (snd (saveBulk V2
      (Response False (Some (JObj [(''detail'', JStr ''Locality not found'')])))
      NetworkError NetworkError
      (initial\<lparr>bulkSelection := [JNum 3],
               bulkLocalitySelect :=
                 \<lparr>options = [\<lparr>opt_value = [], opt_text = ''-- Select --''\<rparr>,
                             \<lparr>opt_value = ''Central'', opt_text = ''Central''\<rparr>],
                  selectedIndex = Some 1\<rparr>\<rparr>))) = []
   \<and> saveBulk V1 NetworkError NetworkError NetworkError
      (initial\<lparr>bulkSelection := [JStr ''3''],
               bulkLocalitySelect :=
                 \<lparr>options = [\<lparr>opt_value = [], opt_text = ''-- Select --''\<rparr>,
                             \<lparr>opt_value = ''7'', opt_text = ''Central''\<rparr>],
                  selectedIndex = Some 1\<rparr>\<rparr>)
     = (Threw NetworkFailure,
        initial\<lparr>bulkSelection := [JStr ''3''],
               bulkLocalitySelect :=
                 \<lparr>options = [\<lparr>opt_value = [], opt_text = ''-- Select --''\<rparr>,
                             \<lparr>opt_value = ''7'', opt_text = ''Central''\<rparr>],
                  selectedIndex = Some 1\<rparr>,
               requests := [POST ''http://127.0.0.1:8001/api/bulk-save/''
                              [(''address_ids'', JArr [JStr ''3'']),
                               (''locality_id'', JStr ''7'')]]\<rparr>)
   \<and> postData V2 ''/save-mapping/''
        [(''address_id'', JNum 3), (''locality_id'', JStr ''Central''),
         (''locality_name'', JStr ''Central'')]
        (Response True (Some (JObj [(''success'', JBool False),
                                    (''error'', JStr ''Locality not found'')])))
        initial
     = (JBool False,
        initial\<lparr>requests := [POST ''http://127.0.0.1:8001/api/save-mapping/''
                                [(''address_id'', JNum 3), (''locality_id'', JStr ''Central''),
                                 (''locality_name'', JStr ''Central'')]]\<rparr>)"
  by (simp add: saveBulk_def postData_def Let_def send_def alert_def select_value_def
        initial_def API_BASE_def)

section \<open>A failed inline save\<close>

lemma saveEdit_V1_leaves_editing:
  assumes "getEditSelect i (viewTableBody st) = Some sel" and "select_value sel \<noteq> []"
  shows "editingRowId (snd (saveEdit V1 i post_resp table_resp st)) = None"
  using assms by (simp add: saveEdit_def Let_def split_beta editingRowId_fetchTableData)

lemma saveEdit_V2_failure_keeps_state:
  assumes "getEditSelect i (viewTableBody st) = Some sel" and "select_value sel \<noteq> []"
      and "\<not> truthy (fst (postData V2 ''/save-mapping/''
                   [(''address_id'', JNum i), (''locality_id'', JStr (select_value sel)),
                    (''locality_name'', JStr (select_value sel))] post_resp st))"
  shows "snd (saveEdit V2 i post_resp table_resp st) =
           st\<lparr>alerts := alerts (snd (saveEdit V2 i post_resp table_resp st)),
              requests := requests st @
                [POST (API_BASE @ ''/save-mapping/'')
                   [(''address_id'', JNum i), (''locality_id'', JStr (select_value sel)),
                    (''locality_name'', JStr (select_value sel))]]\<rparr>"
proof -
  have "saveEdit V2 i post_resp table_resp st =
          (Completed, snd (postData V2 ''/save-mapping/''
                   [(''address_id'', JNum i), (''locality_id'', JStr (select_value sel)),
                    (''locality_name'', JStr (select_value sel))] post_resp st))"
    using assms by (simp add: saveEdit_def Let_def split_beta)
  then show ?thesis
    using postData_frame [of V2 "''/save-mapping/''"
            "[(''address_id'', JNum i), (''locality_id'', JStr (select_value sel)),
              (''locality_name'', JStr (select_value sel))]" post_resp st]
    by simp
qed

text \<open>
  Claim C2 says that after a failed action the page is as it was before, and in particular
  that a row stays in editing mode when the save of \<^verbatim>\<open>saveEdit\<close> fails. Version 2 does
  that (lemma \<open>saveEdit_V2_failure_keeps_state\<close>). Version 1 does not look at what
  \<^verbatim>\<open>postData\<close> returns: with row 1 being edited and a locality chosen, a rejected save
  shows the error and then sets \<^verbatim>\<open>editingRowId\<close> to \<^verbatim>\<open>null\<close>, and so does a save
  that fails in transport, where version 2 keeps the row in editing mode.
\<close>

theorem saveEdit_V1_failure_leaves_editing:
  "editingRowId
     (initial\<lparr>editingRowId := Some 1,
              viewTableBody :=
                [\<lparr>tr_id = 1, tr_address = ''12 Main St'',
                  localityCell = Editing \<lparr>options = [\<lparr>opt_value = ''5'', opt_text = ''Alpha''\<rparr>],
                                          selectedIndex = Some 0\<rparr>,
                  actionCell = SaveCancelButtons 1\<rparr>]\<rparr>) = Some 1
   \<and> editingRowId (snd (saveEdit V1 1
        (Response True (Some (JObj [(''success'', JBool False),
                                    (''error'', JStr ''Locality not found'')])))
        NetworkError
        (initial\<lparr>editingRowId := Some 1,
              viewTableBody :=
                [\<lparr>tr_id = 1, tr_address = ''12 Main St'',
                  localityCell = Editing \<lparr>options = [\<lparr>opt_value = ''5'', opt_text = ''Alpha''\<rparr>],
                                          selectedIndex = Some 0\<rparr>,
                  actionCell = SaveCancelButtons 1\<rparr>]\<rparr>))) = None
   \<and> alerts (snd (saveEdit V1 1
        (Response True (Some (JObj [(''success'', JBool False),
                                    (''error'', JStr ''Locality not found'')])))
        NetworkError
        (initial\<lparr>editingRowId := Some 1,
              viewTableBody :=
                [\<lparr>tr_id = 1, tr_address = ''12 Main St'',
                  localityCell = Editing \<lparr>options = [\<lparr>opt_value = ''5'', opt_text = ''Alpha''\<rparr>],
                                          selectedIndex = Some 0\<rparr>,
                  actionCell = SaveCancelButtons 1\<rparr>]\<rparr>))) = [''Error: Locality not found'']
   \<and> editingRowId (snd (saveEdit V1 1 NetworkError NetworkError
        (initial\<lparr>editingRowId := Some 1,
              viewTableBody :=
                [\<lparr>tr_id = 1, tr_address = ''12 Main St'',
                  localityCell = Editing \<lparr>options = [\<lparr>opt_value = ''5'', opt_text = ''Alpha''\<rparr>],
                                          selectedIndex = Some 0\<rparr>,
                  actionCell = SaveCancelButtons 1\<rparr>]\<rparr>))) = None
   \<and> editingRowId (snd (saveEdit V2 1 NetworkError NetworkError
        (initial\<lparr>editingRowId := Some 1,
              viewTableBody :=
                [\<lparr>tr_id = 1, tr_address = ''12 Main St'',
                  localityCell = Editing \<lparr>options = [\<lparr>opt_value = ''5'', opt_text = ''Alpha''\<rparr>],
                                          selectedIndex = Some 0\<rparr>,
                  actionCell = SaveCancelButtons 1\<rparr>]\<rparr>))) = Some 1"
proof -
  have a: "alerts initial = []"
    by (simp add: initial_def)
  show ?thesis
    by (simp add: saveEdit_def postData_def Let_def send_def alert_def select_value_def
          editingRowId_fetchTableData alerts_fetchTableData a)
qed

end
